theory Spec2Isabelle
  imports Complex_Main "HOL-Library.Char_ord" "HOL-Library.List_Lexorder" "HOL-Library.Multiset"
begin

section \<open>Python values and exceptions\<close>

text \<open>
  Every error of the code under study is a Python exception; the model returns it as a
  value, \<open>Inl\<close> of the exception, carrying the message the source builds.  The spec's
  error names are messages of \<open>ValueError\<close> in the source:
  \<open>MissingColumn\<close> is \<open>ValueError "Missing required column: ..."\<close>,
  \<open>UnsupportedFormat\<close> is \<open>ValueError "Unsupported format: ..."\<close>,
  \<open>UnsupportedCurrency\<close> is \<open>ValueError "Unsupported currency: ..."\<close> and
  \<open>EmptyBatch\<close> is \<open>ValueError "Cannot calculate metrics for empty DataFrame"\<close>.
\<close>

datatype exn =
    ValueError string
  | AttributeError string
  | TypeError string
  | KeyError string
  | IndexError string

fun str_exn :: "exn \<Rightarrow> string" where
  "str_exn (ValueError m) = m"
| "str_exn (AttributeError m) = m"
| "str_exn (TypeError m) = m"
| "str_exn (KeyError m) = m"
| "str_exn (IndexError m) = m"

text \<open>
  A Python value as the pipeline sees it: what \<open>json\<close> decoding produces, plus the
  \<open>NaN\<close> pandas fills missing cells with.  Floats are kept as exact rationals.  A
  \<open>dict\<close> is an association list in insertion order.
\<close>

datatype pyval =
    PNone
  | PNaN
  | PBool bool
  | PInt int
  | PFloat rat
  | PStr string
  | PList "pyval list"
  | PDict "(string \<times> pyval) list"

section \<open>Python string methods (ASCII text)\<close>

definition is_space :: "char \<Rightarrow> bool" where
  "is_space c = (let n = (of_char c :: nat) in n = 32 \<or> (9 \<le> n \<and> n \<le> 13) \<or> (28 \<le> n \<and> n \<le> 31))"

definition is_digit :: "char \<Rightarrow> bool" where
  "is_digit c = (let n = (of_char c :: nat) in 48 \<le> n \<and> n \<le> 57)"

definition is_upper :: "char \<Rightarrow> bool" where
  "is_upper c = (let n = (of_char c :: nat) in 65 \<le> n \<and> n \<le> 90)"

definition is_lower :: "char \<Rightarrow> bool" where
  "is_lower c = (let n = (of_char c :: nat) in 97 \<le> n \<and> n \<le> 122)"

definition is_alnum :: "char \<Rightarrow> bool" where
  "is_alnum c = (is_digit c \<or> is_upper c \<or> is_lower c)"

definition to_lower :: "char \<Rightarrow> char" where
  "to_lower c = (if is_upper c then char_of ((of_char c :: nat) + 32) else c)"

definition to_upper :: "char \<Rightarrow> char" where
  "to_upper c = (if is_lower c then char_of ((of_char c :: nat) - 32) else c)"

definition py_strip :: "string \<Rightarrow> string" where
  "py_strip s = rev (dropWhile is_space (rev (dropWhile is_space s)))"

definition py_lower :: "string \<Rightarrow> string" where
  "py_lower s = map to_lower s"

definition py_upper :: "string \<Rightarrow> string" where
  "py_upper s = map to_upper s"

text \<open>\<open>str.title\<close>: a letter after a letter is lowered, any other letter is raised.\<close>

fun title_from :: "bool \<Rightarrow> string \<Rightarrow> string" where
  "title_from prev [] = []"
| "title_from prev (c # cs) =
     (if is_upper c \<or> is_lower c
      then (if prev then to_lower c else to_upper c) # title_from True cs
      else c # title_from False cs)"

definition py_title :: "string \<Rightarrow> string" where
  "py_title s = title_from False s"

section \<open>The batch normalizer: \<open>app/services/data_service.py\<close>\<close>

text \<open>
  A candidate is a \<open>Dict\<close> whose values the source annotates \<open>Optional[str]\<close>: a key
  is absent, or bound to \<open>None\<close>, or bound to a string.
\<close>

type_synonym candidate = "(string \<times> string option) list"

datatype outval = ONone | OStr string | ODict candidate

type_synonym processed = "(string \<times> outval) list"

definition opt_val :: "string option \<Rightarrow> outval" where
  "opt_val v = (case v of None \<Rightarrow> ONone | Some s \<Rightarrow> OStr s)"

text \<open>\<open>data.get(key)\<close>, with the default \<open>None\<close>.\<close>

definition dict_get :: "candidate \<Rightarrow> string \<Rightarrow> string option" where
  "dict_get d k = (case map_of d k of None \<Rightarrow> None | Some v \<Rightarrow> v)"

definition get_clean_value :: "candidate \<Rightarrow> string \<Rightarrow> string option" where
  "get_clean_value d k = (case dict_get d k of None \<Rightarrow> None | Some s \<Rightarrow> Some (py_strip s))"

text \<open>The message of the \<open>AttributeError\<close> raised by a method call on a value without it.\<close>

definition no_attribute :: "string \<Rightarrow> string \<Rightarrow> string" where
  "no_attribute ty attr =
     [CHR 0x27] @ ty @ [CHR 0x27] @ '' object has no attribute '' @ [CHR 0x27] @ attr @ [CHR 0x27]"

text \<open>
  \<open>candidate.get(key, '').strip()\<close>: the default only replaces an absent key, so a key
  bound to \<open>None\<close> raises.
\<close>

definition get_stripped :: "candidate \<Rightarrow> string \<Rightarrow> exn + string" where
  "get_stripped d k =
     (case map_of d k of
        None \<Rightarrow> Inr (py_strip [])
      | Some None \<Rightarrow> Inl (AttributeError (no_attribute ''NoneType'' ''strip''))
      | Some (Some s) \<Rightarrow> Inr (py_strip s))"

text \<open>
  The normalizers test \<open>if not value\<close> first: \<open>None\<close> and the empty string are false.
\<close>

definition normalize_email :: "string option \<Rightarrow> string option" where
  "normalize_email email =
     (case email of
        None \<Rightarrow> None
      | Some s \<Rightarrow> if s = [] then None else Some (py_strip (py_lower s)))"

definition format_phone :: "string option \<Rightarrow> string option" where
  "format_phone phone =
     (case phone of
        None \<Rightarrow> None
      | Some s \<Rightarrow>
          if s = [] then None
          else (let digits = filter is_digit s in
                if length digits = 11
                then Some (''('' @ take 2 digits @ '') '' @ take 5 (drop 2 digits) @ ''-'' @ drop 7 digits)
                else if length digits = 10
                then Some (''('' @ take 2 digits @ '') '' @ take 4 (drop 2 digits) @ ''-'' @ drop 6 digits)
                else Some digits))"

definition normalize_state :: "string option \<Rightarrow> string option" where
  "normalize_state state =
     (case state of
        None \<Rightarrow> None
      | Some s \<Rightarrow> if s = [] then None else Some (take 2 (py_strip (py_upper s))))"

definition normalize_country :: "string option \<Rightarrow> string" where
  "normalize_country country =
     (case country of
        None \<Rightarrow> ''Brasil''
      | Some s \<Rightarrow>
          if s = [] then ''Brasil''
          else (let c = py_lower (py_strip s) in
                if c \<in> set [''br'', ''brasil'', ''brazil''] then ''Brasil'' else py_title c))"

text \<open>
  \<open>_parse_date\<close>.  The parameter \<open>isofmt\<close> is \<open>datetime.fromisoformat(s).isoformat()\<close>,
  \<open>None\<close> where \<open>fromisoformat\<close> raises \<open>ValueError\<close>, which the source catches.
\<close>

definition replace_Z :: "string \<Rightarrow> string" where
  "replace_Z s = concat (map (\<lambda>c. if c = CHR ''Z'' then ''+00:00'' else [c]) s)"

definition parse_date :: "(string \<Rightarrow> string option) \<Rightarrow> string option \<Rightarrow> string option" where
  "parse_date isofmt date_str =
     (case date_str of
        None \<Rightarrow> None
      | Some s \<Rightarrow>
          if s = [] then None
          else if CHR ''Z'' \<in> set s
          then (case isofmt (replace_Z s) of Some r \<Rightarrow> Some r | None \<Rightarrow> Some s)
          else (case isofmt s of Some r \<Rightarrow> Some r | None \<Rightarrow> Some s))"

definition known_keys :: "string list" where
  "known_keys = [''id'', ''firstName'', ''lastName'', ''email'', ''telephone'', ''city'',
                 ''state'', ''country'', ''cpf'', ''createdAt'', ''updatedAt'']"

definition required_fields :: "string list" where
  "required_fields = [''id'', ''firstName'', ''lastName'', ''cpf'']"

text \<open>\<open>not processed.get(field)\<close> on the record being built.\<close>

definition out_falsy :: "processed \<Rightarrow> string \<Rightarrow> bool" where
  "out_falsy p field =
     (case map_of p field of
        None \<Rightarrow> True
      | Some ONone \<Rightarrow> True
      | Some (OStr s) \<Rightarrow> s = []
      | Some (ODict d) \<Rightarrow> d = [])"

text \<open>The loop over \<open>required_fields\<close>: the first field that is missing raises.\<close>

fun check_required :: "processed \<Rightarrow> string list \<Rightarrow> exn + processed" where
  "check_required p [] = Inr p"
| "check_required p (field # others) =
     (if out_falsy p field then Inl (ValueError (''Missing required field: '' @ field))
      else check_required p others)"

text \<open>
  \<open>_process_candidate\<close>.  \<open>now\<close> is the reading of \<open>datetime.now().isoformat()\<close>; the
  model gives every record of a call the same reading.  The dict display is evaluated
  top to bottom, so the two \<open>strip\<close> calls of \<open>fullName\<close> are the only places that can
  raise before the required-field check.
\<close>

definition process_candidate ::
  "string \<Rightarrow> (string \<Rightarrow> string option) \<Rightarrow> candidate \<Rightarrow> exn + processed" where
  "process_candidate now isofmt candidate =
     (case get_stripped candidate ''firstName'' of
        Inl e \<Rightarrow> Inl e
      | Inr first_name \<Rightarrow>
     (case get_stripped candidate ''lastName'' of
        Inl e \<Rightarrow> Inl e
      | Inr last_name \<Rightarrow>
          check_required
            [(''id'', opt_val (get_clean_value candidate ''id'')),
             (''cpf'', opt_val (get_clean_value candidate ''cpf'')),
             (''firstName'', opt_val (get_clean_value candidate ''firstName'')),
             (''lastName'', opt_val (get_clean_value candidate ''lastName'')),
             (''fullName'', OStr (py_strip (first_name @ '' '' @ last_name))),
             (''email'', opt_val (normalize_email (dict_get candidate ''email''))),
             (''telephone'', opt_val (format_phone (dict_get candidate ''telephone''))),
             (''city'', opt_val (get_clean_value candidate ''city'')),
             (''state'', opt_val (normalize_state (dict_get candidate ''state''))),
             (''country'', OStr (normalize_country (dict_get candidate ''country''))),
             (''createdAt'', opt_val (parse_date isofmt (dict_get candidate ''createdAt''))),
             (''updatedAt'', opt_val (parse_date isofmt (dict_get candidate ''updatedAt''))),
             (''processedAt'', OStr now),
             (''_originalData'', ODict (filter (\<lambda>(k, v). k \<notin> set known_keys) candidate))]
            required_fields))"

text \<open>The failure marker \<open>_process_batch\<close> appends when \<open>_process_candidate\<close> raises.\<close>

definition failure_marker :: "candidate \<Rightarrow> exn \<Rightarrow> processed" where
  "failure_marker candidate e =
     [(''id'', opt_val (dict_get candidate ''id'')),
      (''error'', OStr (str_exn e)),
      (''originalData'', ODict candidate)]"

definition process_one :: "string \<Rightarrow> (string \<Rightarrow> string option) \<Rightarrow> candidate \<Rightarrow> processed" where
  "process_one now isofmt candidate =
     (case process_candidate now isofmt candidate of
        Inr p \<Rightarrow> p
      | Inl e \<Rightarrow> failure_marker candidate e)"

primrec process_batch ::
  "string \<Rightarrow> (string \<Rightarrow> string option) \<Rightarrow> candidate list \<Rightarrow> processed list" where
  "process_batch now isofmt [] = []"
| "process_batch now isofmt (candidate # batch) = process_one now isofmt candidate # process_batch now isofmt batch"

text \<open>\<open>range(0, n, step)\<close> for \<open>n \<ge> 0\<close> and \<open>step \<noteq> 0\<close>: empty when the step is negative.\<close>

definition py_range0 :: "nat \<Rightarrow> int \<Rightarrow> nat list" where
  "py_range0 n step =
     (if 0 < step then map (\<lambda>k. k * nat step) [0 ..< (n + nat step - 1) div nat step] else [])"

text \<open>\<open>raw_candidates[i:i + batch_size]\<close>, evaluated for a positive \<open>batch_size\<close> only.\<close>

definition chunk_at :: "candidate list \<Rightarrow> int \<Rightarrow> nat \<Rightarrow> candidate list" where
  "chunk_at raw batch_size i = take (nat batch_size) (drop i raw)"

definition make_batches :: "candidate list \<Rightarrow> int \<Rightarrow> candidate list list" where
  "make_batches raw batch_size = map (chunk_at raw batch_size) (py_range0 (length raw) batch_size)"

text \<open>
  What a call of \<open>process_candidates\<close> did: the chunks it submitted to the pool, in
  submission order, and the list it returned.
\<close>

record run =
  submitted :: "candidate list list"
  results :: "processed list"

text \<open>
  \<open>process_candidates\<close>.  The results are collected in a loop over
  \<open>as_completed(futures)\<close>, which yields every future once, in an order the code does
  not control: the futures already finished when it is called come out in the iteration
  order of a set, the others as they finish.  \<open>yielded\<close> lists the indices of the
  submitted chunks in the order \<open>as_completed\<close> yields their futures; it is neither
  the submission order nor the order in which the chunks finished.  \<open>max_workers\<close> is
  the pool size the constructor stored; \<open>ThreadPoolExecutor\<close> refuses a size below one
  and \<open>range\<close> a zero step.  \<open>_process_batch\<close> never raises on a candidate of the type
  above, so the \<open>except\<close> branch around \<open>future.result()\<close> is not taken.
\<close>

definition process_candidates ::
  "int \<Rightarrow> string \<Rightarrow> (string \<Rightarrow> string option) \<Rightarrow> nat list \<Rightarrow> candidate list \<Rightarrow> int \<Rightarrow> exn + run" where
  "process_candidates max_workers now isofmt yielded raw_candidates batch_size =
     (if raw_candidates = [] then Inr \<lparr>submitted = [], results = []\<rparr>
      else if max_workers \<le> 0 then Inl (ValueError ''max_workers must be greater than 0'')
      else if batch_size = 0 then Inl (ValueError ''range() arg 3 must not be zero'')
      else (let batches = make_batches raw_candidates batch_size in
            Inr \<lparr>submitted = batches,
                 results = concat (map (\<lambda>i. process_batch now isofmt (batches ! i)) yielded)\<rparr>))"

text \<open>The two-record input of the spec's testable properties.\<close>

definition ann :: candidate where
  "ann = [(''id'', Some ''1''), (''firstName'', Some ''Ann''), (''lastName'', Some ''Lee''),
          (''cpf'', Some ''123'')]"

definition only_id :: candidate where
  "only_id = [(''id'', Some ''2'')]"

section \<open>Flattening: \<open>utils/json_flattener.py\<close>\<close>

text \<open>Decimal text of a natural number, as an f-string prints an index.\<close>

definition digit_char :: "nat \<Rightarrow> char" where
  "digit_char d = char_of (of_char CHR ''0'' + d)"

function decimal :: "nat \<Rightarrow> string" where
  "decimal n =
     (let q = n div 10; last_digit = digit_char (n mod 10) in
      if q = 0 then [last_digit] else decimal q @ [last_digit])"
  by pat_completeness auto
termination
  by (relation "measure id") auto

declare decimal.simps [simp del]

text \<open>
  \<open>d[k] = v\<close> on an insertion-ordered dict: a key already present keeps its place and
  takes the new value, a new key goes to the end.
\<close>

fun dict_set :: "(string \<times> 'v) list \<Rightarrow> string \<Rightarrow> 'v \<Rightarrow> (string \<times> 'v) list" where
  "dict_set [] k v = [(k, v)]"
| "dict_set ((k', v') # d) k v = (if k' = k then (k, v) # d else (k', v') # dict_set d k v)"

text \<open>\<open>dict(items)\<close>: the items are stored one after the other.\<close>

definition dict_of_items :: "(string \<times> 'v) list \<Rightarrow> (string \<times> 'v) list" where
  "dict_of_items items = foldl (\<lambda>d (k, v). dict_set d k v) [] items"

definition new_key :: "string \<Rightarrow> string \<Rightarrow> string \<Rightarrow> string" where
  "new_key parent_key sep k = (if parent_key \<noteq> [] then parent_key @ sep @ k else k)"

text \<open>
  \<open>_flatten_dict\<close>.  \<open>flatten_items\<close> is the list \<open>items\<close> the loop over \<open>d.items()\<close>
  builds, \<open>flatten_list\<close> the inner loop over \<open>enumerate(v)\<close> from index \<open>i\<close> on; a
  nested call contributes the items of the dict it returns.  A list element that is not
  a dict contributes nothing.
\<close>

fun flatten_items :: "(string \<times> pyval) list \<Rightarrow> string \<Rightarrow> string \<Rightarrow> (string \<times> pyval) list"
  and flatten_list :: "pyval list \<Rightarrow> string \<Rightarrow> string \<Rightarrow> nat \<Rightarrow> (string \<times> pyval) list" where
  "flatten_items [] parent_key sep = []"
| "flatten_items ((k, PDict d) # rest) parent_key sep =
     dict_of_items (flatten_items d (new_key parent_key sep k) sep) @ flatten_items rest parent_key sep"
| "flatten_items ((k, PList xs) # rest) parent_key sep =
     flatten_list xs (new_key parent_key sep k) sep 0 @ flatten_items rest parent_key sep"
| "flatten_items ((k, v) # rest) parent_key sep =
     (new_key parent_key sep k, v) # flatten_items rest parent_key sep"
| "flatten_list [] key sep i = []"
| "flatten_list (PDict d # xs) key sep i =
     dict_of_items (flatten_items d (key @ ''_'' @ decimal i) sep) @ flatten_list xs key sep (Suc i)"
| "flatten_list (x # xs) key sep i = flatten_list xs key sep (Suc i)"

definition flatten_dict :: "(string \<times> pyval) list \<Rightarrow> string \<Rightarrow> string \<Rightarrow> (string \<times> pyval) list" where
  "flatten_dict d parent_key sep = dict_of_items (flatten_items d parent_key sep)"

text \<open>\<open>flatten(m)\<close>: the call with the default arguments \<open>parent_key=''\<close> and \<open>sep='_'\<close>.\<close>

definition flatten :: "(string \<times> pyval) list \<Rightarrow> (string \<times> pyval) list" where
  "flatten m = flatten_dict m [] ''_''"

fun is_mapping :: "pyval \<Rightarrow> bool" where
  "is_mapping (PDict d) = True"
| "is_mapping v = False"

fun is_list :: "pyval \<Rightarrow> bool" where
  "is_list (PList xs) = True"
| "is_list v = False"

text \<open>
  An already-flat mapping: no value is a mapping, and no list value has a mapping among
  its elements.
\<close>

fun holds_no_mapping :: "pyval \<Rightarrow> bool" where
  "holds_no_mapping (PDict d) = False"
| "holds_no_mapping (PList xs) = list_all (\<lambda>x. \<not> is_mapping x) xs"
| "holds_no_mapping v = True"

definition already_flat :: "(string \<times> pyval) list \<Rightarrow> bool" where
  "already_flat m = list_all (\<lambda>(k, v). holds_no_mapping v) m"

text \<open>A value that is neither a mapping nor a list.\<close>

definition scalar :: "pyval \<Rightarrow> bool" where
  "scalar v = (\<not> is_mapping v \<and> \<not> is_list v)"

text \<open>An already-flat record with a list of scalars among its values.\<close>

definition flat_example :: "(string \<times> pyval) list" where
  "flat_example =
     [(''id'', PInt 7), (''name'', PStr ''Ann''), (''tags'', PList [PStr ''a'', PInt 1]),
      (''note'', PNone)]"

section \<open>The content hash: \<open>DataLakeTransformer._generate_metadata\<close>\<close>

text \<open>
  \<open>json.dumps(data, sort_keys=True)\<close> with the default separators and
  \<open>ensure_ascii\<close>.  A string is quoted, with the quote, the backslash and every
  character outside the printable ASCII range escaped.
\<close>

definition hex_digit :: "nat \<Rightarrow> char" where
  "hex_digit n = (if n < 10 then char_of (48 + n) else char_of (87 + n))"

definition escape_char :: "char \<Rightarrow> string" where
  "escape_char c =
     (let n = (of_char c :: nat) in
      if n = 0x22 then [CHR 0x5C, CHR 0x22]
      else if n = 0x5C then [CHR 0x5C, CHR 0x5C]
      else if n = 8 then [CHR 0x5C, CHR ''b'']
      else if n = 12 then [CHR 0x5C, CHR ''f'']
      else if n = 10 then [CHR 0x5C, CHR ''n'']
      else if n = 13 then [CHR 0x5C, CHR ''r'']
      else if n = 9 then [CHR 0x5C, CHR ''t'']
      else if 32 \<le> n \<and> n \<le> 126 then [c]
      else [CHR 0x5C] @ ''u00'' @ [hex_digit (n div 16), hex_digit (n mod 16)])"

definition encode_string :: "string \<Rightarrow> string" where
  "encode_string s = [CHR 0x22] @ concat (map escape_char s) @ [CHR 0x22]"

definition decimal_int :: "int \<Rightarrow> string" where
  "decimal_int i = (if 0 \<le> i then decimal (nat i) else CHR ''-'' # decimal (nat \<bar>i\<bar>))"

text \<open>\<open>sep.join(parts)\<close>.\<close>

fun join :: "string \<Rightarrow> string list \<Rightarrow> string" where
  "join sep [] = []"
| "join sep [x] = x"
| "join sep (x # y # ys) = x @ sep @ join sep (y # ys)"

text \<open>
  The encoder.  \<open>float_repr\<close> is \<open>float.__repr__\<close>, the text Python prints for a
  float.  With \<open>sort_keys\<close> the items of a dict are sorted by key before they are
  written; keys are compared as Python compares strings, character by character.
\<close>

function json_dumps :: "(rat \<Rightarrow> string) \<Rightarrow> pyval \<Rightarrow> string" where
  "json_dumps float_repr PNone = ''null''"
| "json_dumps float_repr PNaN = ''NaN''"
| "json_dumps float_repr (PBool b) = (if b then ''true'' else ''false'')"
| "json_dumps float_repr (PInt i) = decimal_int i"
| "json_dumps float_repr (PFloat x) = float_repr x"
| "json_dumps float_repr (PStr s) = encode_string s"
| "json_dumps float_repr (PList xs) = ''['' @ join '', '' (map (json_dumps float_repr) xs) @ '']''"
| "json_dumps float_repr (PDict d) =
     ''{'' @ join '', '' (map (\<lambda>kv. encode_string (fst kv) @ '': '' @ json_dumps float_repr (snd kv))
                              (sort_key fst d)) @ ''}''"
  by pat_completeness auto
termination
proof (relation "measure (\<lambda>(float_repr, v). size v)")
  show "wf (measure (\<lambda>(float_repr, v). size v))" by simp
next
  fix float_repr :: "rat \<Rightarrow> string" and xs :: "pyval list" and x
  assume "x \<in> set xs"
  then have "size x < Suc (size_list size xs)"
    by (simp add: size_list_estimation' less_Suc_eq_le)
  then show "((float_repr, x), (float_repr, PList xs)) \<in> measure (\<lambda>(float_repr, v). size v)"
    by simp
next
  fix float_repr :: "rat \<Rightarrow> string" and d :: "(string \<times> pyval) list" and kv
  assume "kv \<in> set (sort_key fst d)"
  then have "kv \<in> set d" by simp
  then have "size (snd kv) < size_list (size_prod (\<lambda>_. 0) size) d"
    by (rule size_list_estimation) (cases kv, simp)
  then show "((float_repr, snd kv), (float_repr, PDict d)) \<in> measure (\<lambda>(float_repr, v). size v)"
    by simp
qed

text \<open>
  \<open>hashlib.md5(json.dumps(data, sort_keys=True).encode()).hexdigest()\<close>; \<open>md5\<close> is the
  digest function, taken as a parameter.  The text is ASCII, so encoding it changes
  nothing.
\<close>

definition content_hash :: "(string \<Rightarrow> string) \<Rightarrow> (rat \<Rightarrow> string) \<Rightarrow> pyval \<Rightarrow> string" where
  "content_hash md5 float_repr data = md5 (json_dumps float_repr data)"

text \<open>
  Equality of payloads as Python decides it for decoded JSON: scalars are equal when
  they are the same value, lists when they are equal element by element, and two dicts
  when they hold the same keys with equal values, whatever the order the keys were
  inserted in.  A dict has each key once.
\<close>

inductive same_payload :: "pyval \<Rightarrow> pyval \<Rightarrow> bool" where
  same_scalar: "scalar v \<Longrightarrow> same_payload v v"
| same_list: "list_all2 same_payload xs ys \<Longrightarrow> same_payload (PList xs) (PList ys)"
| same_dict:
    "list_all2 (\<lambda>a b. fst a = fst b \<and> same_payload (snd a) (snd b)) xs zs \<Longrightarrow>
     mset zs = mset ys \<Longrightarrow> distinct (map fst ys) \<Longrightarrow>
     same_payload (PDict xs) (PDict ys)"

code_pred same_payload .

text \<open>One payload written with its keys inserted in two different orders.\<close>

definition payload_ba :: pyval where
  "payload_ba =
     PDict [(''b'', PInt 1), (''a'', PList [PDict [(''y'', PStr ''q''), (''x'', PNone)]])]"

definition payload_ab :: pyval where
  "payload_ab =
     PDict [(''a'', PList [PDict [(''x'', PNone), (''y'', PStr ''q'')]]), (''b'', PInt 1)]"


section \<open>Frames: the part of pandas the transformers use\<close>

text \<open>
  A \<open>DataFrame\<close> with a default index: the length of the index and the columns in
  order, each a name and its cells.  Cell values are carried as they are; the inference
  of column types is left to the library functions taken as parameters below.
\<close>

record frame =
  n_rows :: nat
  cols :: "(string \<times> pyval list) list"

type_synonym row = "(string \<times> pyval) list"

text \<open>The elements of a list in the order they first appear.\<close>

fun first_seen :: "'a list \<Rightarrow> 'a list \<Rightarrow> 'a list" where
  "first_seen seen [] = []"
| "first_seen seen (x # xs) =
     (if x \<in> set seen then first_seen seen xs else x # first_seen (x # seen) xs)"

definition column_names :: "row list \<Rightarrow> string list" where
  "column_names rows = first_seen [] (concat (map (map fst) rows))"

definition cell :: "row \<Rightarrow> string \<Rightarrow> pyval" where
  "cell r c = (case map_of r c of Some v \<Rightarrow> v | None \<Rightarrow> PNaN)"

text \<open>
  \<open>pd.DataFrame(rows)\<close> for a list of dicts: one index entry per dict, one column per
  key in order of first appearance, \<open>NaN\<close> where a dict lacks the key.  A list of
  empty dicts gives a frame with rows and no column.
\<close>

definition data_frame :: "row list \<Rightarrow> frame" where
  "data_frame rows =
     \<lparr>n_rows = length rows,
      cols = map (\<lambda>c. (c, map (\<lambda>r. cell r c) rows)) (column_names rows)\<rparr>"

definition cell_at :: "pyval list \<Rightarrow> nat \<Rightarrow> pyval" where
  "cell_at vs i = (if i < length vs then vs ! i else PNaN)"

text \<open>
  \<open>df.to_dict(orient='records')\<close>.  pandas builds the records by zipping the column
  arrays (\<open>DataFrame.itertuples(index=False)\<close>), one record per tuple: with no column
  there is nothing to zip and the list of records is empty, whatever the index length.
\<close>

definition to_dict_records :: "frame \<Rightarrow> row list" where
  "to_dict_records df =
     (if cols df = [] then []
      else map (\<lambda>i. map (\<lambda>(c, vs). (c, cell_at vs i)) (cols df)) [0 ..< n_rows df])"

text \<open>\<open>df.empty\<close>: an axis of length zero; \<open>df.columns\<close>; \<open>df[c]\<close>.\<close>

definition df_empty :: "frame \<Rightarrow> bool" where
  "df_empty df = (n_rows df = 0 \<or> cols df = [])"

definition df_columns :: "frame \<Rightarrow> string list" where
  "df_columns df = map fst (cols df)"

definition get_col :: "frame \<Rightarrow> string \<Rightarrow> pyval list option" where
  "get_col df c = map_of (cols df) c"

text \<open>
  \<open>df[c] = values\<close>: the values are aligned to the index of the frame (cut or padded
  with \<open>NaN\<close>), an existing column is replaced where it stands, a new one is appended.
\<close>

definition align :: "nat \<Rightarrow> pyval list \<Rightarrow> pyval list" where
  "align n vs = take n vs @ replicate (n - length vs) PNaN"

definition set_col :: "frame \<Rightarrow> string \<Rightarrow> pyval list \<Rightarrow> frame" where
  "set_col df c vs =
     df\<lparr>cols :=
          (if c \<in> set (df_columns df)
           then map (\<lambda>(c', vs'). if c' = c then (c, align (n_rows df) vs) else (c', vs')) (cols df)
           else cols df @ [(c, align (n_rows df) vs)])\<rparr>"

text \<open>Every column of a frame is as long as its index.\<close>

definition well_formed :: "frame \<Rightarrow> bool" where
  "well_formed df = list_all (\<lambda>(c, vs). length vs = n_rows df) (cols df)"

text \<open>\<open>pd.isnull\<close> on a cell: \<open>None\<close> and \<open>NaN\<close> are null.\<close>

fun is_null :: "pyval \<Rightarrow> bool" where
  "is_null PNone = True"
| "is_null PNaN = True"
| "is_null v = False"

section \<open>The base pipeline: \<open>app/etl/transformers/data_lake_transformer.py\<close>\<close>

text \<open>
  What an extractor returned: a list of mappings, a single mapping, or something that is
  neither (a scalar), which \<open>_convert_to_dataframe\<close> refuses.
\<close>

datatype raw_payload = Rows "row list" | Single row | Other pyval

fun payload_value :: "raw_payload \<Rightarrow> pyval" where
  "payload_value (Rows rs) = PList (map PDict rs)"
| "payload_value (Single r) = PDict r"
| "payload_value (Other v) = v"

record metrics =
  completeness :: "(string \<times> rat) list"
  uniqueness :: "(string \<times> rat) list"

record metadata =
  load_timestamp :: string
  source_system :: string
  data_hash :: string
  record_count :: nat
  schema_version :: string
  quality_metrics :: "metrics option"

record batch =
  data :: "row list"
  metadata :: metadata
  raw_data :: raw_payload

text \<open>
  What the code takes from outside: the clock (\<open>datetime.utcnow().isoformat() + "Z"\<close>),
  the digest, the text of a float, and from pandas the test \<open>dtype == 'object'\<close> of a
  column and the two conversions of \<open>_standardize_data_types\<close>, which may raise.
\<close>

record env =
  env_now :: string
  env_md5 :: "string \<Rightarrow> string"
  env_float_repr :: "rat \<Rightarrow> string"
  pd_is_object :: "pyval list \<Rightarrow> bool"
  pd_to_datetime :: "pyval list \<Rightarrow> exn + pyval list"
  pd_to_numeric :: "pyval list \<Rightarrow> exn + pyval list"

definition generate_metadata :: "env \<Rightarrow> raw_payload \<Rightarrow> string \<Rightarrow> metadata" where
  "generate_metadata e payload source =
     \<lparr>load_timestamp = env_now e,
      source_system = source,
      data_hash = content_hash (env_md5 e) (env_float_repr e) (payload_value payload),
      record_count = (case payload of Rows rs \<Rightarrow> length rs | _ \<Rightarrow> 1),
      schema_version = ''1.0'',
      quality_metrics = None\<rparr>"

definition convert_to_dataframe :: "raw_payload \<Rightarrow> exn + frame" where
  "convert_to_dataframe payload =
     (case payload of
        Rows rs \<Rightarrow> Inr (data_frame rs)
      | Single r \<Rightarrow> Inr (data_frame [r])
      | Other v \<Rightarrow> Inl (ValueError ''Unsupported data type''))"

text \<open>
  \<open>try: df[col] = convert(df[col]) except (ValueError, TypeError): pass\<close>: the two
  exceptions leave the column as it is, any other one propagates.
\<close>

definition try_convert :: "(pyval list \<Rightarrow> exn + pyval list) \<Rightarrow> frame \<Rightarrow> string \<Rightarrow> exn + frame" where
  "try_convert convert df c =
     (case get_col df c of
        None \<Rightarrow> Inr df
      | Some vs \<Rightarrow>
          (case convert vs of
             Inr vs' \<Rightarrow> Inr (set_col df c vs')
           | Inl (ValueError m) \<Rightarrow> Inr df
           | Inl (TypeError m) \<Rightarrow> Inr df
           | Inl e \<Rightarrow> Inl e))"

definition object_column :: "env \<Rightarrow> frame \<Rightarrow> string \<Rightarrow> bool" where
  "object_column e df c = (case get_col df c of None \<Rightarrow> False | Some vs \<Rightarrow> pd_is_object e vs)"

definition standardize_column :: "env \<Rightarrow> frame \<Rightarrow> string \<Rightarrow> exn + frame" where
  "standardize_column e df c =
     (case (if object_column e df c then try_convert (pd_to_datetime e) df c else Inr df) of
        Inl x \<Rightarrow> Inl x
      | Inr df1 \<Rightarrow> if object_column e df1 c then try_convert (pd_to_numeric e) df1 c else Inr df1)"

fun standardize_columns :: "env \<Rightarrow> frame \<Rightarrow> string list \<Rightarrow> exn + frame" where
  "standardize_columns e df [] = Inr df"
| "standardize_columns e df (c # cs) =
     (case standardize_column e df c of
        Inl x \<Rightarrow> Inl x
      | Inr df' \<Rightarrow> standardize_columns e df' cs)"

definition standardize_data_types :: "env \<Rightarrow> frame \<Rightarrow> exn + frame" where
  "standardize_data_types e df = standardize_columns e df (df_columns df)"

text \<open>
  The body the three entry points share, after the extractor returned \<open>payload\<close>:
  frame, standard types, metadata from the raw payload, records from the frame.
\<close>

definition transform_payload :: "env \<Rightarrow> raw_payload \<Rightarrow> string \<Rightarrow> exn + batch" where
  "transform_payload e payload source =
     (case convert_to_dataframe payload of
        Inl x \<Rightarrow> Inl x
      | Inr df \<Rightarrow>
          (case standardize_data_types e df of
             Inl x \<Rightarrow> Inl x
           | Inr df' \<Rightarrow>
               Inr \<lparr>data = to_dict_records df',
                    metadata = generate_metadata e payload source,
                    raw_data = payload\<rparr>))"

definition transform_api_data :: "env \<Rightarrow> raw_payload \<Rightarrow> string \<Rightarrow> string \<Rightarrow> exn + batch" where
  "transform_api_data e payload base_url endpoint =
     transform_payload e payload (''API:'' @ base_url @ endpoint)"

definition transform_database_data :: "env \<Rightarrow> raw_payload \<Rightarrow> string \<Rightarrow> exn + batch" where
  "transform_database_data e payload source_name = transform_payload e payload source_name"

definition transform_file_data :: "env \<Rightarrow> raw_payload \<Rightarrow> string \<Rightarrow> string option \<Rightarrow> exn + batch" where
  "transform_file_data e payload file_path source_name =
     transform_payload e payload
       (case source_name of None \<Rightarrow> ''FILE:'' @ file_path | Some s \<Rightarrow> s)"

text \<open>The number of rows of a raw payload, and whether any of its mappings has a field.\<close>

fun payload_rows :: "raw_payload \<Rightarrow> nat" where
  "payload_rows (Rows rs) = length rs"
| "payload_rows (Single r) = 1"
| "payload_rows (Other v) = 1"

fun has_field :: "raw_payload \<Rightarrow> bool" where
  "has_field (Rows rs) = list_ex (\<lambda>r. r \<noteq> []) rs"
| "has_field (Single r) = (r \<noteq> [])"
| "has_field (Other v) = False"


section \<open>Quality metrics: \<open>app/etl/transformers/data_quality_transformer.py\<close>\<close>

text \<open>
  \<open>df[col].isnull().mean()\<close>: the mean of the null flags of the column, each flag
  counted as 0 or 1.  The metrics are floats in the source and exact rationals here.
\<close>

definition mean_null :: "pyval list \<Rightarrow> rat" where
  "mean_null vs = sum_list (map (\<lambda>v. if is_null v then 1 else 0) vs) / of_nat (length vs)"

text \<open>
  \<open>df[col].nunique()\<close>: the number of distinct values that are not null.  The values
  are hashed first, so a cell that is a list or a dict raises \<open>TypeError\<close>; numbers are
  compared by value (\<open>True\<close>, \<open>1\<close> and \<open>1.0\<close> are one value).
\<close>

fun hash_key :: "pyval \<Rightarrow> pyval" where
  "hash_key (PBool b) = PFloat (if b then 1 else 0)"
| "hash_key (PInt i) = PFloat (of_int i)"
| "hash_key v = v"

fun unhashable :: "pyval list \<Rightarrow> exn option" where
  "unhashable [] = None"
| "unhashable (PList xs # vs) = Some (TypeError (''unhashable type: '' @ [CHR 0x27] @ ''list'' @ [CHR 0x27]))"
| "unhashable (PDict d # vs) = Some (TypeError (''unhashable type: '' @ [CHR 0x27] @ ''dict'' @ [CHR 0x27]))"
| "unhashable (v # vs) = unhashable vs"

definition nunique :: "pyval list \<Rightarrow> exn + nat" where
  "nunique vs =
     (case unhashable vs of
        Some x \<Rightarrow> Inl x
      | None \<Rightarrow> Inr (length (remdups (map hash_key (filter (\<lambda>v. \<not> is_null v) vs)))))"

text \<open>The dict comprehension of \<open>uniqueness\<close>, column by column; \<open>n\<close> is \<open>len(df)\<close>.\<close>

fun uniqueness_items :: "nat \<Rightarrow> (string \<times> pyval list) list \<Rightarrow> exn + (string \<times> rat) list" where
  "uniqueness_items n [] = Inr []"
| "uniqueness_items n ((c, vs) # rest) =
     (case nunique vs of
        Inl x \<Rightarrow> Inl x
      | Inr k \<Rightarrow>
          (case uniqueness_items n rest of
             Inl x \<Rightarrow> Inl x
           | Inr u \<Rightarrow> Inr ((c, of_nat k / of_nat (max 1 n)) # u)))"

definition empty_metrics :: metrics where
  "empty_metrics = \<lparr>completeness = [], uniqueness = []\<rparr>"

definition EmptyBatch :: exn where
  "EmptyBatch = ValueError ''Cannot calculate metrics for empty DataFrame''"

text \<open>
  \<open>_calculate_quality_metrics\<close>, its three branches in the order of the source: the
  test \<open>df.empty\<close> raises, then the test \<open>len(df) == 0\<close> returns empty maps, then the
  two comprehensions.
\<close>

definition calculate_quality_metrics :: "frame \<Rightarrow> exn + metrics" where
  "calculate_quality_metrics df =
     (if df_empty df then Inl EmptyBatch
      else if n_rows df = 0 then Inr empty_metrics
      else (case uniqueness_items (n_rows df) (cols df) of
              Inl x \<Rightarrow> Inl x
            | Inr u \<Rightarrow>
                Inr \<lparr>completeness = map (\<lambda>(c, vs). (c, 1 - mean_null vs)) (cols df),
                     uniqueness = u\<rparr>))"

definition with_quality :: "batch \<Rightarrow> metrics \<Rightarrow> batch" where
  "with_quality b m = b\<lparr>metadata := (metadata b)\<lparr>quality_metrics := Some m\<rparr>\<rparr>"

text \<open>
  \<open>DataQualityTransformer.transform_database_data\<close>: the base transformation, a frame
  rebuilt from its records, and the metrics of that frame unless it is empty.
\<close>

definition quality_transform_database_data :: "env \<Rightarrow> raw_payload \<Rightarrow> string \<Rightarrow> exn + batch" where
  "quality_transform_database_data e payload source_name =
     (case transform_database_data e payload source_name of
        Inl x \<Rightarrow> Inl x
      | Inr b \<Rightarrow>
          (let df = data_frame (data b) in
           if \<not> df_empty df
           then (case calculate_quality_metrics df of
                   Inl x \<Rightarrow> Inl x
                 | Inr m \<Rightarrow> Inr (with_quality b m))
           else Inr (with_quality b empty_metrics)))"

text \<open>The counts the spec's formulas are written with.\<close>

definition null_count :: "pyval list \<Rightarrow> nat" where
  "null_count vs = length (filter is_null vs)"

definition distinct_count :: "pyval list \<Rightarrow> nat" where
  "distinct_count vs = card (hash_key ` {v \<in> set vs. \<not> is_null v})"

text \<open>
  The metrics as the spec writes them: per column, \<open>1 - nullCount / rowCount\<close> and
  \<open>distinctCount / max(1, rowCount)\<close>.
\<close>

definition spec_metrics :: "frame \<Rightarrow> metrics" where
  "spec_metrics df =
     \<lparr>completeness =
        map (\<lambda>(c, vs). (c, 1 - of_nat (null_count vs) / of_nat (n_rows df))) (cols df),
      uniqueness =
        map (\<lambda>(c, vs). (c, of_nat (distinct_count vs) / of_nat (max 1 (n_rows df)))) (cols df)\<rparr>"

text \<open>Whether no cell of the frame is a list or a dict.\<close>

fun scalar_cell :: "pyval \<Rightarrow> bool" where
  "scalar_cell (PList xs) = False"
| "scalar_cell (PDict d) = False"
| "scalar_cell v = True"

definition scalar_cells :: "frame \<Rightarrow> bool" where
  "scalar_cells df = list_all (\<lambda>(c, vs). list_all scalar_cell vs) (cols df)"

text \<open>Three database rows: a null, a missing field, and \<open>True\<close> next to \<open>1\<close>.\<close>

definition sample_rows :: "row list" where
  "sample_rows =
     [[(''a'', PInt 1), (''b'', PNone)], [(''a'', PBool True), (''b'', PStr ''x'')], [(''a'', PInt 2)]]"

text \<open>
  Three rows of numbers, one of them without \<open>b\<close>; a row whose only cell is a list; and
  an environment for them: a column is of dtype \<open>object\<close> unless it holds only numbers
  and \<open>NaN\<close>, and both conversions refuse the column they are given, which leaves it as
  it is.
\<close>

definition number_rows :: "row list" where
  "number_rows =
     [[(''a'', PInt 1), (''b'', PFloat (3 / 2))], [(''a'', PInt 2)],
      [(''a'', PInt 2), (''b'', PFloat (3 / 2))]]"

definition list_rows :: "row list" where
  "list_rows = [[(''tags'', PList [PStr ''x''])]]"

fun numeric_cell :: "pyval \<Rightarrow> bool" where
  "numeric_cell (PInt i) = True"
| "numeric_cell (PFloat x) = True"
| "numeric_cell PNaN = True"
| "numeric_cell v = False"

definition numbers_env :: "string \<Rightarrow> (string \<Rightarrow> string) \<Rightarrow> (rat \<Rightarrow> string) \<Rightarrow> env" where
  "numbers_env now md5 float_repr =
     \<lparr>env_now = now, env_md5 = md5, env_float_repr = float_repr,
      pd_is_object = (\<lambda>vs. \<not> list_all numeric_cell vs),
      pd_to_datetime = (\<lambda>vs. Inl (TypeError ''unconvertible'')),
      pd_to_numeric = (\<lambda>vs. Inl (TypeError ''unconvertible''))\<rparr>"

section \<open>Business rules: \<open>app/etl/transformers/bussiness_rules_transformer.py\<close>\<close>

definition exchange_rates :: "(string \<times> rat) list" where
  "exchange_rates = [(''USD'', 1), (''EUR'', 85 / 100), (''GBP'', 75 / 100), (''JPY'', 110)]"

definition UnsupportedCurrency :: "string \<Rightarrow> exn" where
  "UnsupportedCurrency currency = ValueError (''Unsupported currency: '' @ currency)"

definition get_exchange_rate :: "string \<Rightarrow> exn + rat" where
  "get_exchange_rate currency =
     (case map_of exchange_rates currency of
        None \<Rightarrow> Inl (UnsupportedCurrency currency)
      | Some rate \<Rightarrow> Inr rate)"

text \<open>
  \<open>df["price"] * rate\<close>, cell by cell: a number is multiplied, a null cell gives
  \<open>NaN\<close>, text and containers raise \<open>TypeError\<close>.
\<close>

fun times_cell :: "rat \<Rightarrow> pyval \<Rightarrow> exn + pyval" where
  "times_cell rate (PInt i) = Inr (PFloat (of_int i * rate))"
| "times_cell rate (PFloat x) = Inr (PFloat (x * rate))"
| "times_cell rate (PBool b) = Inr (PFloat ((if b then 1 else 0) * rate))"
| "times_cell rate PNone = Inr PNaN"
| "times_cell rate PNaN = Inr PNaN"
| "times_cell rate (PDict d) =
     Inl (TypeError (''unsupported operand type(s) for *: '' @ [CHR 0x27] @ ''dict'' @ [CHR 0x27]
                     @ '' and '' @ [CHR 0x27] @ ''float'' @ [CHR 0x27]))"
| "times_cell rate v =
     Inl (TypeError (''can'' @ [CHR 0x27] @ ''t multiply sequence by non-int of type ''
                     @ [CHR 0x27] @ ''float'' @ [CHR 0x27]))"

fun times_cells :: "rat \<Rightarrow> pyval list \<Rightarrow> exn + pyval list" where
  "times_cells rate [] = Inr []"
| "times_cells rate (v # vs) =
     (case times_cell rate v of
        Inl x \<Rightarrow> Inl x
      | Inr w \<Rightarrow>
          (case times_cells rate vs of
             Inl x \<Rightarrow> Inl x
           | Inr ws \<Rightarrow> Inr (w # ws)))"

type_synonym rules_config = "(string \<times> (string \<times> string) list) list"

text \<open>\<open>self.rules.get("price", {})\<close>.\<close>

definition price_rules :: "rules_config \<Rightarrow> (string \<times> string) list" where
  "price_rules rules = (case map_of rules ''price'' of None \<Rightarrow> [] | Some d \<Rightarrow> d)"

text \<open>
  \<open>_apply_business_rules\<close>.  The lookup of the rate and the multiplication stand in
  one \<open>try\<close> whose handler catches \<open>ValueError\<close>, logs it and goes on: the frame is then
  returned as it was.  Any other exception propagates.
\<close>

definition apply_business_rules :: "rules_config \<Rightarrow> frame \<Rightarrow> exn + frame" where
  "apply_business_rules rules df =
     (case (get_col df ''price'', map_of (price_rules rules) ''convert_currency'') of
        (Some price, Some target_currency) \<Rightarrow>
          (case get_exchange_rate target_currency of
             Inl (ValueError m) \<Rightarrow> Inr df
           | Inl x \<Rightarrow> Inl x
           | Inr rate \<Rightarrow>
               (case times_cells rate price of
                  Inl (ValueError m) \<Rightarrow> Inr df
                | Inl x \<Rightarrow> Inl x
                | Inr converted \<Rightarrow> Inr (set_col df ''price_usd'' converted)))
      | _ \<Rightarrow> Inr df)"

text \<open>
  \<open>BusinessRulesTransformer.transform_file_data\<close>: the base transformation, then the
  rules on a frame rebuilt from its records.
\<close>

definition business_transform_file_data ::
  "env \<Rightarrow> rules_config \<Rightarrow> raw_payload \<Rightarrow> string \<Rightarrow> string option \<Rightarrow> exn + batch" where
  "business_transform_file_data e rules payload file_path source_name =
     (case transform_file_data e payload file_path source_name of
        Inl x \<Rightarrow> Inl x
      | Inr b \<Rightarrow>
          (case apply_business_rules rules (data_frame (data b)) of
             Inl x \<Rightarrow> Inl x
           | Inr df \<Rightarrow> Inr (b\<lparr>data := to_dict_records df\<rparr>)))"

text \<open>The rule set and the batch of the spec's example.\<close>

definition convert_to :: "string \<Rightarrow> rules_config" where
  "convert_to currency = [(''price'', [(''convert_currency'', currency)])]"

definition price_100 :: frame where
  "price_100 = \<lparr>n_rows = 1, cols = [(''price'', [PInt 100])]\<rparr>"


section \<open>Anonymization: \<open>private_transform.py\<close> and \<open>medical_transformer.py\<close>\<close>

text \<open>
  The truth value of \<open>pd.notnull(x)\<close>, which the lambda of the source tests.  On a
  scalar or a dict the answer is one flag.  On a list pandas answers element by element
  with an array, and the truth value of an array of two or more elements raises
  \<open>ValueError\<close>; what numpy makes of an empty, a one-element or a nested list is left to
  the parameter \<open>small_array\<close>.
\<close>

definition ambiguous_truth :: exn where
  "ambiguous_truth =
     ValueError ''The truth value of an array with more than one element is ambiguous. Use a.any() or a.all()''"

fun notnull_truth :: "(pyval list \<Rightarrow> exn + bool) \<Rightarrow> pyval \<Rightarrow> exn + bool" where
  "notnull_truth small_array PNone = Inr False"
| "notnull_truth small_array PNaN = Inr False"
| "notnull_truth small_array (PList xs) =
     (if 2 \<le> length xs \<and> \<not> list_ex is_list xs then Inl ambiguous_truth else small_array xs)"
| "notnull_truth small_array v = Inr True"

text \<open>
  \<open>lambda x: hashlib.sha256(str(x).encode()).hexdigest() if pd.notnull(x) else x\<close>; the
  digest \<open>sha256\<close> and \<open>str\<close> are parameters.
\<close>

definition hash_value ::
  "(string \<Rightarrow> string) \<Rightarrow> (pyval \<Rightarrow> string) \<Rightarrow> (pyval list \<Rightarrow> exn + bool) \<Rightarrow> pyval \<Rightarrow> exn + pyval" where
  "hash_value sha256 py_str small_array x =
     (case notnull_truth small_array x of
        Inl e \<Rightarrow> Inl e
      | Inr True \<Rightarrow> Inr (PStr (sha256 (py_str x)))
      | Inr False \<Rightarrow> Inr x)"

text \<open>\<open>Series.apply\<close>: the function is called on the cells in order; the first raise ends it.\<close>

fun series_apply :: "(pyval \<Rightarrow> exn + pyval) \<Rightarrow> pyval list \<Rightarrow> exn + pyval list" where
  "series_apply f [] = Inr []"
| "series_apply f (v # vs) =
     (case f v of
        Inl e \<Rightarrow> Inl e
      | Inr w \<Rightarrow>
          (case series_apply f vs of
             Inl e \<Rightarrow> Inl e
           | Inr ws \<Rightarrow> Inr (w # ws)))"

text \<open>
  \<open>PrivateTransform.hash_sensitive_data\<close>: the loop over the configured fields; a
  field that is not a column is passed over.
\<close>

fun hash_sensitive_data ::
  "(string \<Rightarrow> string) \<Rightarrow> (pyval \<Rightarrow> string) \<Rightarrow> (pyval list \<Rightarrow> exn + bool) \<Rightarrow>
   string list \<Rightarrow> frame \<Rightarrow> exn + frame" where
  "hash_sensitive_data sha256 py_str small_array [] df = Inr df"
| "hash_sensitive_data sha256 py_str small_array (field # others) df =
     (case get_col df field of
        None \<Rightarrow> hash_sensitive_data sha256 py_str small_array others df
      | Some vs \<Rightarrow>
          (case series_apply (hash_value sha256 py_str small_array) vs of
             Inl e \<Rightarrow> Inl e
           | Inr hashed \<Rightarrow>
               hash_sensitive_data sha256 py_str small_array others (set_col df field hashed)))"

text \<open>\<open>MedicalDataTransformer._anonymize_data\<close> has the same body, over \<open>anonymize_fields\<close>.\<close>

definition anonymize_data ::
  "(string \<Rightarrow> string) \<Rightarrow> (pyval \<Rightarrow> string) \<Rightarrow> (pyval list \<Rightarrow> exn + bool) \<Rightarrow>
   string list \<Rightarrow> frame \<Rightarrow> exn + frame" where
  "anonymize_data sha256 py_str small_array anonymize_fields df =
     hash_sensitive_data sha256 py_str small_array anonymize_fields df"

text \<open>The hash of one cell that is not a list: a null stays, any other value is hashed.\<close>

definition hashed_cell :: "(string \<Rightarrow> string) \<Rightarrow> (pyval \<Rightarrow> string) \<Rightarrow> pyval \<Rightarrow> pyval" where
  "hashed_cell sha256 py_str x = (if is_null x then x else PStr (sha256 (py_str x)))"

text \<open>
  Two patients: the \<open>ssn\<close> column holds scalars, the \<open>telecom\<close> column a list of two
  contact points.
\<close>

definition patients :: frame where
  "patients =
     \<lparr>n_rows = 3,
      cols = [(''ssn'', [PStr ''123'', PNone, PStr ''123'']),
              (''telecom'', [PList [PDict [(''system'', PStr ''phone'')], PDict [(''system'', PStr ''email'')]],
                             PNone, PNone])]\<rparr>"

text \<open>No configured field that is a column of the frame holds a list.\<close>

definition scalar_columns :: "string list \<Rightarrow> frame \<Rightarrow> bool" where
  "scalar_columns fs df =
     list_all (\<lambda>c. case get_col df c of None \<Rightarrow> True | Some vs \<Rightarrow> list_all (\<lambda>v. \<not> is_list v) vs) fs"


section \<open>Schema enforcement: \<open>utils/sche,a_enforce_transformer.py\<close>\<close>

definition MissingColumn :: "string \<Rightarrow> exn" where
  "MissingColumn column = ValueError (''Missing required column: '' @ column)"

text \<open>
  The coercion of one column.  For the type \<open>"datetime"\<close> the code calls
  \<open>pd.to_datetime(col, errors="coerce")\<close>.  For any other type it calls
  \<open>col.astype(dtype, errors="ignore")\<close>: pandas first resolves the name \<open>dtype\<close>, and
  a name it does not know raises \<open>TypeError\<close> whatever \<open>errors\<close> says; for a name it
  knows the cast does not raise.  \<open>dtype_names\<close> are the names pandas resolves,
  \<open>to_datetime\<close> and \<open>cast\<close> the two conversions; all three are parameters.
\<close>

definition dtype_not_understood :: "string \<Rightarrow> exn" where
  "dtype_not_understood dtype =
     TypeError (''data type '' @ [CHR 0x27] @ dtype @ [CHR 0x27] @ '' not understood'')"

definition coerce ::
  "string list \<Rightarrow> (pyval list \<Rightarrow> pyval list) \<Rightarrow> (string \<Rightarrow> pyval list \<Rightarrow> pyval list) \<Rightarrow>
   string \<Rightarrow> pyval list \<Rightarrow> exn + pyval list" where
  "coerce dtype_names to_datetime cast dtype vs =
     (if dtype = ''datetime'' then Inr (to_datetime vs)
      else if dtype \<in> set dtype_names then Inr (cast dtype vs)
      else Inl (dtype_not_understood dtype))"

text \<open>
  What a call of \<open>_enforce_schema\<close> leaves behind: the exception it raised, if any, the
  frame it was given, which it updates in place, and the columns it has assigned a
  coerced value to, in order.
\<close>

record schema_run =
  outcome :: "exn option"
  frame_after :: frame
  coerced :: "string list"

text \<open>
  The loop over \<open>self.schema.items()\<close>, in the insertion order of the schema: each
  round tests that the column is present and then coerces it, before the next column
  is looked at.  A round that raises ends the loop; the columns assigned in earlier
  rounds stay assigned.
\<close>

fun enforce_loop ::
  "string list \<Rightarrow> (pyval list \<Rightarrow> pyval list) \<Rightarrow> (string \<Rightarrow> pyval list \<Rightarrow> pyval list) \<Rightarrow>
   (string \<times> string) list \<Rightarrow> frame \<Rightarrow> string list \<Rightarrow> schema_run" where
  "enforce_loop dtype_names to_datetime cast [] df assigned =
     \<lparr>outcome = None, frame_after = df, coerced = assigned\<rparr>"
| "enforce_loop dtype_names to_datetime cast ((column, dtype) # rest) df assigned =
     (case get_col df column of
        None \<Rightarrow> \<lparr>outcome = Some (MissingColumn column), frame_after = df, coerced = assigned\<rparr>
      | Some vs \<Rightarrow>
          (case coerce dtype_names to_datetime cast dtype vs of
             Inl x \<Rightarrow> \<lparr>outcome = Some x, frame_after = df, coerced = assigned\<rparr>
           | Inr ws \<Rightarrow>
               enforce_loop dtype_names to_datetime cast rest (set_col df column ws)
                 (assigned @ [column])))"

definition enforce_schema ::
  "string list \<Rightarrow> (pyval list \<Rightarrow> pyval list) \<Rightarrow> (string \<Rightarrow> pyval list \<Rightarrow> pyval list) \<Rightarrow>
   (string \<times> string) list \<Rightarrow> frame \<Rightarrow> schema_run" where
  "enforce_schema dtype_names to_datetime cast schema df =
     enforce_loop dtype_names to_datetime cast schema df []"

text \<open>
  \<open>SchemaEnforcerTransformer.transform_api_data\<close>: the base transformation, then the
  schema on a frame rebuilt from its records.
\<close>

definition schema_transform_api_data ::
  "env \<Rightarrow> string list \<Rightarrow> (pyval list \<Rightarrow> pyval list) \<Rightarrow> (string \<Rightarrow> pyval list \<Rightarrow> pyval list) \<Rightarrow>
   (string \<times> string) list \<Rightarrow> raw_payload \<Rightarrow> string \<Rightarrow> string \<Rightarrow> exn + batch" where
  "schema_transform_api_data e dtype_names to_datetime cast schema payload base_url endpoint =
     (case transform_api_data e payload base_url endpoint of
        Inl x \<Rightarrow> Inl x
      | Inr b \<Rightarrow>
          (let r = enforce_schema dtype_names to_datetime cast schema (data_frame (data b)) in
           case outcome r of
             Some x \<Rightarrow> Inl x
           | None \<Rightarrow> Inr (b\<lparr>data := to_dict_records (frame_after r)\<rparr>)))"

text \<open>Whether a configured column is a column of the frame.\<close>

definition present :: "frame \<Rightarrow> string \<times> string \<Rightarrow> bool" where
  "present df entry = (fst entry \<in> set (df_columns df))"

text \<open>
  Whether the coercion of a configured type does not raise: the type is \<open>"datetime"\<close>
  or a name pandas resolves.  The values it puts into the column then.
\<close>

definition resolves :: "string list \<Rightarrow> string \<times> string \<Rightarrow> bool" where
  "resolves dtype_names entry = (snd entry = ''datetime'' \<or> snd entry \<in> set dtype_names)"

definition cast_values ::
  "(pyval list \<Rightarrow> pyval list) \<Rightarrow> (string \<Rightarrow> pyval list \<Rightarrow> pyval list) \<Rightarrow> string \<Rightarrow> pyval list \<Rightarrow> pyval list" where
  "cast_values to_datetime cast dtype vs = (if dtype = ''datetime'' then to_datetime vs else cast dtype vs)"

text \<open>
  The frame with the columns named by \<open>entries\<close> replaced, where they stand, by their
  coerced values aligned to the index, and every other column as it was.
\<close>

definition coerced_frame ::
  "(pyval list \<Rightarrow> pyval list) \<Rightarrow> (string \<Rightarrow> pyval list \<Rightarrow> pyval list) \<Rightarrow>
   (string \<times> string) list \<Rightarrow> frame \<Rightarrow> frame" where
  "coerced_frame to_datetime cast entries df =
     df\<lparr>cols :=
          map (\<lambda>(k, vs). case (map_of entries k, get_col df k) of
                            (Some dtype, Some vs0) \<Rightarrow>
                              (k, align (n_rows df) (cast_values to_datetime cast dtype vs0))
                          | _ \<Rightarrow> (k, vs))
              (cols df)\<rparr>"

text \<open>
  Type names numpy resolves, among many others; \<open>"number"\<close>, \<open>"text"\<close> and
  \<open>"timestamp"\<close>, the names the spec writes, are none it resolves.
\<close>

definition builtin_dtypes :: "string list" where
  "builtin_dtypes = [''int'', ''float'', ''str'', ''bool'', ''object'']"

text \<open>The schema of the spec's example in the type names of the code, and a batch without \<open>created\<close>.\<close>

definition id_created :: "(string \<times> string) list" where
  "id_created = [(''id'', ''int''), (''created'', ''datetime'')]"

definition only_id_column :: frame where
  "only_id_column = \<lparr>n_rows = 1, cols = [(''id'', [PStr ''7''])]\<rparr>"

text \<open>The schema of the spec's example as the spec writes it.\<close>

definition number_timestamp :: "(string \<times> string) list" where
  "number_timestamp = [(''id'', ''number''), (''created'', ''timestamp'')]"

text \<open>
  A schema that configures \<open>name\<close> after \<open>created\<close>, and a batch of two rows with the
  columns \<open>name\<close> and \<open>id\<close> and without \<open>created\<close>.
\<close>

definition id_created_name :: "(string \<times> string) list" where
  "id_created_name = [(''id'', ''int''), (''created'', ''datetime''), (''name'', ''str'')]"

definition name_id_frame :: frame where
  "name_id_frame =
     \<lparr>n_rows = 2,
      cols = [(''name'', [PInt 1, PInt 2]), (''id'', [PStr ''7'', PStr ''8''])]\<rparr>"

section \<open>The sink: \<open>save_to_raw_zone\<close> and \<open>save_to_data_lake\<close>\<close>

text \<open>
  The storage is the list of the files written so far, each a path and what a pandas
  writer or \<open>json.dump\<close> put there; a write adds a file and does not fail.
\<close>

datatype file_content =
    Parquet frame
  | JsonLines frame
  | Csv frame
  | MetadataJson metadata

type_synonym storage = "(string \<times> file_content) list"

definition UnsupportedFormat :: "string \<Rightarrow> exn" where
  "UnsupportedFormat fmt = ValueError (''Unsupported format: '' @ fmt)"

text \<open>\<open>"".join(c if c.isalnum() else "_" for c in name)\<close>.\<close>

definition clean_name :: "string \<Rightarrow> string" where
  "clean_name name = map (\<lambda>c. if is_alnum c then c else CHR ''_'') name"

text \<open>
  \<open>DataLakeTransformer.save_to_raw_zone\<close>; \<open>timestamp\<close> is
  \<open>datetime.utcnow().strftime("%Y%m%d_%H%M%S")\<close>.  The format is tested before anything
  is written, and the metadata file is written after the data file.
\<close>

definition save_to_raw_zone ::
  "string \<Rightarrow> storage \<Rightarrow> batch \<Rightarrow> string \<Rightarrow> string \<Rightarrow> (exn + string) \<times> storage" where
  "save_to_raw_zone timestamp files transformed storage_path fmt =
     (let df = data_frame (data transformed);
          dir = storage_path @ ''/'' @ clean_name (source_system (metadata transformed)) @ ''/'' @ timestamp;
          output_path = dir @ ''/data.'' @ fmt;
          metadata_file = (dir @ ''/metadata.json'', MetadataJson (metadata transformed))
      in if fmt = ''parquet'' then (Inr output_path, files @ [(output_path, Parquet df), metadata_file])
         else if fmt = ''json'' then (Inr output_path, files @ [(output_path, JsonLines df), metadata_file])
         else if fmt = ''csv'' then (Inr output_path, files @ [(output_path, Csv df), metadata_file])
         else (Inl (UnsupportedFormat fmt), files))"

text \<open>
  \<open>str(x)\<close> on a cell: the text of a scalar; the text of a float and of a container
  are parameters.
\<close>

fun str_of :: "(rat \<Rightarrow> string) \<Rightarrow> (pyval \<Rightarrow> string) \<Rightarrow> pyval \<Rightarrow> string" where
  "str_of float_repr container_repr PNone = ''None''"
| "str_of float_repr container_repr PNaN = ''nan''"
| "str_of float_repr container_repr (PBool b) = (if b then ''True'' else ''False'')"
| "str_of float_repr container_repr (PInt i) = decimal_int i"
| "str_of float_repr container_repr (PFloat x) = float_repr x"
| "str_of float_repr container_repr (PStr s) = s"
| "str_of float_repr container_repr v = container_repr v"

text \<open>
  \<open>s.replace(old, new)\<close> for a non-empty \<open>old\<close>: every occurrence, left to right,
  without overlap.
\<close>

function py_replace :: "string \<Rightarrow> string \<Rightarrow> string \<Rightarrow> string" where
  "py_replace old new [] = []"
| "py_replace old new (c # cs) =
     (if old \<noteq> [] \<and> take (length old) (c # cs) = old
      then new @ py_replace old new (drop (length old) (c # cs))
      else c # py_replace old new cs)"
  by pat_completeness auto
termination
  by (relation "measure (\<lambda>(old, new, s). length s)") auto

text \<open>
  The list comprehension of \<open>_save_partitioned\<close>: one \<open>col=value\<close> segment per
  partition column that is a column of the frame, from the first row; \<open>iloc[0]\<close> raises
  on a frame without rows.
\<close>

fun partition_values ::
  "(pyval \<Rightarrow> string) \<Rightarrow> frame \<Rightarrow> string list \<Rightarrow> exn + string list" where
  "partition_values to_text df [] = Inr []"
| "partition_values to_text df (col # others) =
     (case get_col df col of
        None \<Rightarrow> partition_values to_text df others
      | Some [] \<Rightarrow> Inl (IndexError ''single positional indexer is out-of-bounds'')
      | Some (v # vs) \<Rightarrow>
          (case partition_values to_text df others of
             Inl x \<Rightarrow> Inl x
           | Inr segments \<Rightarrow> Inr ((col @ ''='' @ to_text v) # segments)))"

text \<open>\<open>df.drop(columns=labels)\<close>: a label that is not a column raises \<open>KeyError\<close>.\<close>

definition quoted_list :: "string list \<Rightarrow> string" where
  "quoted_list labels = ''['' @ join '', '' (map (\<lambda>l. [CHR 0x27] @ l @ [CHR 0x27]) labels) @ '']''"

definition drop_columns :: "frame \<Rightarrow> string list \<Rightarrow> exn + frame" where
  "drop_columns df labels =
     (let missing = filter (\<lambda>l. l \<notin> set (df_columns df)) labels in
      if missing \<noteq> [] then Inl (KeyError (quoted_list missing @ '' not found in axis''))
      else Inr (df\<lparr>cols := filter (\<lambda>(c, vs). c \<notin> set labels) (cols df)\<rparr>))"

text \<open>
  \<open>_save_partitioned\<close>.  The data is written with \<open>to_parquet\<close> whatever \<open>format\<close>
  says; \<open>format\<close> only names the file.
\<close>

definition save_partitioned ::
  "(pyval \<Rightarrow> string) \<Rightarrow> storage \<Rightarrow> frame \<Rightarrow> string \<Rightarrow> string \<Rightarrow> string \<Rightarrow> string list \<Rightarrow>
   (exn + string) \<times> storage" where
  "save_partitioned to_text files df storage_path source_name_clean fmt partition_cols =
     (case partition_values to_text df partition_cols of
        Inl x \<Rightarrow> (Inl x, files)
      | Inr segments \<Rightarrow>
          (let output_path =
                 storage_path @ ''/'' @ source_name_clean @ ''/'' @ join ''/'' segments @ ''/data.'' @ fmt
           in case drop_columns df partition_cols of
                Inl x \<Rightarrow> (Inl x, files)
              | Inr kept \<Rightarrow> (Inr output_path, files @ [(output_path, Parquet kept)])))"

text \<open>\<open>_save_non_partitioned\<close>: the handler is looked up by format before it is called.\<close>

definition save_non_partitioned ::
  "storage \<Rightarrow> frame \<Rightarrow> string \<Rightarrow> string \<Rightarrow> string \<Rightarrow> string \<Rightarrow> (exn + string) \<times> storage" where
  "save_non_partitioned files df storage_path source_name_clean fmt timestamp =
     (let output_path = storage_path @ ''/'' @ source_name_clean @ ''/'' @ timestamp @ ''/data.'' @ fmt
      in if fmt = ''parquet'' then (Inr output_path, files @ [(output_path, Parquet df)])
         else if fmt = ''json'' then (Inr output_path, files @ [(output_path, JsonLines df)])
         else if fmt = ''csv'' then (Inr output_path, files @ [(output_path, Csv df)])
         else (Inl (UnsupportedFormat fmt), files))"

text \<open>
  \<open>UniversalDataTransformer.save_to_data_lake\<close>.  \<open>source_info\<close> is
  \<open>transformed_data['source']\<close>; a \<open>partition_cols\<close> that is \<open>None\<close> or empty selects
  the non-partitioned handler.  The metadata file is written once the handler returned.
\<close>

definition source_name_of :: "(string \<times> string) list \<Rightarrow> string" where
  "source_name_of source_info =
     (case map_of source_info ''source_name'' of
        Some s \<Rightarrow> s
      | None \<Rightarrow> (case map_of source_info ''endpoint'' of Some s \<Rightarrow> s | None \<Rightarrow> ''unknown''))"

definition save_to_data_lake ::
  "(pyval \<Rightarrow> string) \<Rightarrow> string \<Rightarrow> storage \<Rightarrow> batch \<Rightarrow> (string \<times> string) list \<Rightarrow> string \<Rightarrow> string \<Rightarrow>
   string list option \<Rightarrow> (exn + string) \<times> storage" where
  "save_to_data_lake to_text timestamp files transformed source_info storage_path fmt partition_cols =
     (let df = data_frame (data transformed);
          source_name_clean = clean_name (source_name_of source_info);
          saved = (case partition_cols of
                     None \<Rightarrow> save_non_partitioned files df storage_path source_name_clean fmt timestamp
                   | Some [] \<Rightarrow> save_non_partitioned files df storage_path source_name_clean fmt timestamp
                   | Some (col # others) \<Rightarrow>
                       save_partitioned to_text files df storage_path source_name_clean fmt (col # others))
      in case saved of
           (Inl x, files') \<Rightarrow> (Inl x, files')
         | (Inr output_path, files') \<Rightarrow>
             (Inr output_path,
              files' @ [(py_replace (''data.'' @ fmt) ''metadata.json'' output_path,
                         MetadataJson (metadata transformed))]))"

text \<open>The formats the sink knows.\<close>

definition supported_formats :: "string list" where
  "supported_formats = [''parquet'', ''json'', ''csv'']"

text \<open>A batch of two rows with \<open>org = "A"\<close>, from the source \<open>crm\<close>.\<close>

definition org_batch :: batch where
  "org_batch =
     \<lparr>data = [[(''org'', PStr ''A''), (''n'', PInt 1)], [(''org'', PStr ''A''), (''n'', PInt 2)]],
      metadata = \<lparr>load_timestamp = ''2025-01-01T00:00:00Z'', source_system = ''crm'',
                  data_hash = ''0'', record_count = 2, schema_version = ''1.0'',
                  quality_metrics = None\<rparr>,
      raw_data = Rows [[(''org'', PStr ''A''), (''n'', PInt 1)], [(''org'', PStr ''A''), (''n'', PInt 2)]]\<rparr>"


section \<open>Properties of frames\<close>

text \<open>A frame built from rows has no column exactly when every row is empty.\<close>

lemma first_seen_Nil_iff: "first_seen seen xs = [] \<longleftrightarrow> set xs \<subseteq> set seen"
  by (induction seen xs rule: first_seen.induct) auto

lemma column_names_Nil_iff: "column_names rows = [] \<longleftrightarrow> \<not> list_ex (\<lambda>r. r \<noteq> []) rows"
  by (auto simp: column_names_def first_seen_Nil_iff list_ex_iff)

lemma length_to_dict_records:
  "length (to_dict_records df) = (if cols df = [] then 0 else n_rows df)"
  by (simp add: to_dict_records_def)

text \<open>Assigning a column changes neither the index nor whether the frame has a column.\<close>

lemma set_col_shape:
  "n_rows (set_col df c vs) = n_rows df"
  "cols df \<noteq> [] \<Longrightarrow> cols (set_col df c vs) \<noteq> []"
  by (simp_all add: set_col_def)

lemma get_col_None_iff: "get_col df c = None \<longleftrightarrow> c \<notin> set (df_columns df)"
  by (simp add: get_col_def df_columns_def map_of_eq_None_iff)

lemma well_formed_data_frame: "well_formed (data_frame rows)"
  by (simp add: well_formed_def data_frame_def list_all_iff)

text \<open>Assigning an existing column of a well-formed frame.\<close>

lemma length_align: "length (align n vs) = n"
  by (simp add: align_def)

lemma align_same_length: "length vs = n \<Longrightarrow> align n vs = vs"
  by (simp add: align_def)

lemma map_of_replace:
  "map_of (map (\<lambda>(c', vs'). if c' = c then (c, ws) else (c', vs')) cs) k =
     (if k = c then (if c \<in> set (map fst cs) then Some ws else None) else map_of cs k)"
  by (induction cs) (auto simp: rev_image_eqI)

lemma get_col_set_col:
  assumes "get_col df c = Some vs" and "length ws = n_rows df"
  shows "get_col (set_col df c ws) k = (if k = c then Some ws else get_col df k)"
proof -
  from assms(1) have "c \<in> set (df_columns df)"
    by (auto simp: get_col_def df_columns_def dest: map_of_SomeD intro: rev_image_eqI)
  then show ?thesis
    using assms(2) by (simp add: get_col_def set_col_def map_of_replace align_same_length df_columns_def)
qed

lemma set_col_existing:
  assumes "get_col df c = Some vs"
  shows "n_rows (set_col df c ws) = n_rows df"
    and "df_columns (set_col df c ws) = df_columns df"
    and "well_formed df \<Longrightarrow> well_formed (set_col df c ws)"
proof -
  from assms have c: "c \<in> set (df_columns df)"
    by (auto simp: get_col_def df_columns_def dest: map_of_SomeD intro: rev_image_eqI)
  show "n_rows (set_col df c ws) = n_rows df" by (simp add: set_col_def)
  have "map fst (map (\<lambda>(c', vs'). if c' = c then (c, align (n_rows df) ws) else (c', vs')) (cols df))
        = map fst (cols df)"
    by (induction "cols df") (auto split: prod.splits)
  with c show "df_columns (set_col df c ws) = df_columns df"
    by (simp add: set_col_def df_columns_def)
  show "well_formed (set_col df c ws)" if "well_formed df"
    using that c by (auto simp: well_formed_def set_col_def list_all_iff length_align split: if_splits)
qed

section \<open>Properties of the batch normalizer\<close>

lemma chunks_concat:
  "concat (map (\<lambda>k. take b (drop (k * b) xs)) [0..<m]) = take (m * b) xs"
proof (induction m)
  case 0 show ?case by simp
next
  case (Suc m)
  have "take (m * b) xs @ take b (drop (m * b) xs) = take (m * b + b) xs"
    by (simp add: take_add)
  with Suc show ?case by (simp add: add.commute)
qed

text \<open>The chunks of a positive \<open>batch_size\<close> are contiguous and cover the input.\<close>

lemma concat_make_batches:
  assumes "0 < batch_size"
  shows "concat (make_batches raw batch_size) = raw"
proof -
  let ?b = "nat batch_size"
  have b: "0 < ?b" using assms by simp
  have "length raw \<le> ((length raw + ?b - 1) div ?b) * ?b"
  proof -
    have "(length raw + ?b - 1) div ?b * ?b + (length raw + ?b - 1) mod ?b = length raw + ?b - 1"
      by (rule div_mult_mod_eq)
    moreover have "(length raw + ?b - 1) mod ?b < ?b" using b by simp
    ultimately show ?thesis by linarith
  qed
  then show ?thesis
    using assms by (simp add: make_batches_def py_range0_def chunk_at_def comp_def chunks_concat)
qed

lemma process_batch_map: "process_batch now isofmt batch = map (process_one now isofmt) batch"
  by (induction batch) simp_all

lemma mset_concat_yielded:
  assumes "mset yielded = mset [0..<length bs]"
  shows "mset (concat (map (\<lambda>i. f (bs ! i)) yielded)) = mset (concat (map f bs))"
proof -
  have "mset (concat (map (\<lambda>i. f (bs ! i)) yielded))
        = sum_mset (image_mset (\<lambda>i. mset (f (bs ! i))) (mset yielded))"
    by (simp add: mset_concat comp_def flip: sum_mset_sum_list)
  also have "\<dots> = sum_mset (image_mset (\<lambda>i. mset (f (bs ! i))) (mset [0..<length bs]))"
    by (simp only: assms)
  also have "\<dots> = mset (concat (map (\<lambda>i. f (bs ! i)) [0..<length bs]))"
    by (simp add: mset_concat comp_def flip: sum_mset_sum_list)
  also have "map (\<lambda>i. f (bs ! i)) [0..<length bs] = map f bs"
    by (simp add: map_nth flip: map_map [unfolded comp_def])
  finally show ?thesis .
qed


lemma make_batches_Nil: "make_batches [] batch_size = []"
  by (simp add: make_batches_def py_range0_def)

text \<open>An input that fits in one chunk is submitted as that one chunk.\<close>

lemma make_batches_single:
  assumes "raw \<noteq> []" and "length raw \<le> nat batch_size"
  shows "make_batches raw batch_size = [raw]"
proof -
  let ?n = "length raw" and ?b = "nat batch_size"
  from assms(1) have n: "0 < ?n" by simp
  with assms(2) have nb: "0 < ?b" by linarith
  then have b: "0 < batch_size" by simp
  from assms(2) n nb have "?b \<le> ?n + ?b - 1" and "?n + ?b - 1 < ?b + ?b" by arith+
  then have "?b * 1 \<le> ?n + ?b - 1" and "?n + ?b - 1 < ?b * Suc 1" by simp_all
  then have "(?n + ?b - 1) div ?b = 1" by (rule div_nat_eqI)
  with b assms(2) show ?thesis
    by (simp add: make_batches_def py_range0_def chunk_at_def)
qed

text \<open>
  C2, as the code has it.  For every input list, every \<open>batch_size \<ge> 1\<close>, every pool
  of at least one worker and every order in which \<open>as_completed\<close> yields the futures of
  the submitted chunks, \<open>process_candidates\<close> returns a list of the same length as its
  input that holds, for every input record, its normalized form or its failure marker:
  the processed chunks one after the other, in yield order.  Nothing ties that order to
  the input order; the list is in input order when the whole input fits in one chunk.
\<close>

theorem process_candidates_yield_order:
  assumes "0 < max_workers" and "0 < batch_size"
    and "mset yielded = mset [0..<length (make_batches raw batch_size)]"
  shows "process_candidates max_workers now isofmt yielded raw batch_size =
           Inr \<lparr>submitted = make_batches raw batch_size,
                results = concat (map (\<lambda>i. process_batch now isofmt (make_batches raw batch_size ! i)) yielded)\<rparr>
       \<and> concat (make_batches raw batch_size) = raw
       \<and> length (concat (map (\<lambda>i. process_batch now isofmt (make_batches raw batch_size ! i)) yielded))
           = length raw
       \<and> mset (concat (map (\<lambda>i. process_batch now isofmt (make_batches raw batch_size ! i)) yielded))
           = mset (map (process_one now isofmt) raw)
       \<and> (length raw \<le> nat batch_size \<longrightarrow>
            concat (map (\<lambda>i. process_batch now isofmt (make_batches raw batch_size ! i)) yielded)
            = map (process_one now isofmt) raw)"
proof -
  let ?bs = "make_batches raw batch_size"
  let ?res = "concat (map (\<lambda>i. process_batch now isofmt (?bs ! i)) yielded)"
  have cat: "concat ?bs = raw"
    using assms(2) by (rule concat_make_batches)
  have run: "process_candidates max_workers now isofmt yielded raw batch_size =
           Inr \<lparr>submitted = ?bs, results = ?res\<rparr>"
  proof (cases "raw = []")
    case True
    with assms(3) have "yielded = []" by (simp add: make_batches_Nil)
    with True show ?thesis by (simp add: process_candidates_def make_batches_Nil)
  next
    case False
    with assms(1,2) show ?thesis by (simp add: process_candidates_def Let_def)
  qed
  have "mset ?res = mset (concat (map (process_batch now isofmt) ?bs))"
    using assms(3) by (rule mset_concat_yielded)
  also have "concat (map (process_batch now isofmt) ?bs) = map (process_one now isofmt) (concat ?bs)"
    by (simp add: process_batch_map [abs_def] map_concat)
  also have "concat ?bs = raw" by (rule cat)
  finally have ms: "mset ?res = mset (map (process_one now isofmt) raw)" .
  then have "size (mset ?res) = size (mset (map (process_one now isofmt) raw))" by simp
  then have len: "length ?res = length raw" by simp
  have one: "?res = map (process_one now isofmt) raw" if fits: "length raw \<le> nat batch_size"
  proof (cases "raw = []")
    case True
    with assms(3) have "yielded = []" by (simp add: make_batches_Nil)
    with True show ?thesis by simp
  next
    case False
    then have single: "?bs = [raw]" using fits by (rule make_batches_single)
    with assms(3) have "mset yielded = {#0#}" by simp
    then have "yielded = [0]" by (metis mset_single_iff_right)
    with single show ?thesis by (simp add: process_batch_map)
  qed
  from run cat len ms one show ?thesis by blast
qed

theorem process_candidates_yield_order_witness:
  "(0::int) < 4 \<and> (0::int) < 1 \<and> (0::int) < 2
   \<and> mset [1, 0] = mset [0..<length (make_batches [ann, only_id] 1)]
   \<and> process_candidates 4 ''t'' Map.empty [1, 0] [ann, only_id] 1 =
        Inr \<lparr>submitted = [[ann], [only_id]],
             results = [process_one ''t'' Map.empty only_id, process_one ''t'' Map.empty ann]\<rparr>
   \<and> mset [process_one ''t'' Map.empty only_id, process_one ''t'' Map.empty ann]
        = mset [process_one ''t'' Map.empty ann, process_one ''t'' Map.empty only_id]
   \<and> mset [0] = mset [0..<length (make_batches [ann, only_id] 2)]
   \<and> length [ann, only_id] \<le> nat 2
   \<and> process_candidates 4 ''t'' Map.empty [0] [ann, only_id] 2 =
        Inr \<lparr>submitted = [[ann, only_id]],
             results = [process_one ''t'' Map.empty ann, process_one ''t'' Map.empty only_id]\<rparr>"
proof -
  have mb: "make_batches [ann, only_id] 1 = [[ann], [only_id]]"
    by (simp add: make_batches_def py_range0_def chunk_at_def upt_rec)
  have h: "mset [1, 0] = mset [0..<length (make_batches [ann, only_id] 1)]"
    by (simp add: mb upt_rec)
  have mb2: "make_batches [ann, only_id] 2 = [[ann, only_id]]"
    by (simp add: make_batches_def py_range0_def chunk_at_def upt_rec)
  have h2: "mset [0] = mset [0..<length (make_batches [ann, only_id] 2)]"
    by (simp add: mb2)
  show ?thesis
    using process_candidates_yield_order [of 4 1 "[1, 0]" "[ann, only_id]" "''t''" Map.empty, OF _ _ h]
      process_candidates_yield_order [of 4 2 "[0]" "[ann, only_id]" "''t''" Map.empty, OF _ _ h2]
    by (simp add: mb mb2)
qed

text \<open>
  C10.  On an empty input list \<open>process_candidates\<close> returns the empty list and
  submits no chunk to the pool, for every \<open>batch_size\<close> (zero and negative ones
  included), every pool size and every scheduler.
\<close>

theorem process_candidates_empty:
  "process_candidates max_workers now isofmt yielded [] batch_size = Inr \<lparr>submitted = [], results = []\<rparr>"
  by (simp add: process_candidates_def)

text \<open>
  C2 as stated fails.  On the two-record input with \<open>batch_size = 1\<close>, when the future of
  the second chunk is yielded first the returned list starts with the failure marker of record 2 and
  ends with the normalized record 1; and with \<open>batch_size = -1\<close> no chunk is built and
  the returned list is empty although the input has two records.
\<close>

theorem process_candidates_reorders:
  "process_candidates 4 ''t'' Map.empty [1, 0] [ann, only_id] 1 =
     Inr \<lparr>submitted = [[ann], [only_id]],
          results =
            [[(''id'', OStr ''2''), (''error'', OStr ''Missing required field: firstName''),
              (''originalData'', ODict only_id)],
             [(''id'', OStr ''1''), (''cpf'', OStr ''123''), (''firstName'', OStr ''Ann''),
              (''lastName'', OStr ''Lee''), (''fullName'', OStr ''Ann Lee''), (''email'', ONone),
              (''telephone'', ONone), (''city'', ONone), (''state'', ONone),
              (''country'', OStr ''Brasil''), (''createdAt'', ONone), (''updatedAt'', ONone),
              (''processedAt'', OStr ''t''), (''_originalData'', ODict [])]]\<rparr>
   \<and> process_candidates 4 ''t'' Map.empty [] [ann, only_id] (- 1) = Inr \<lparr>submitted = [], results = []\<rparr>"
  by code_simp

section \<open>Properties of flattening\<close>

lemma dict_set_keys:
  "map fst (dict_set d k v) = (if k \<in> set (map fst d) then map fst d else map fst d @ [k])"
  by (induction d) (auto simp: rev_image_eqI)

lemma dict_set_fresh: "k \<notin> set (map fst d) \<Longrightarrow> dict_set d k v = d @ [(k, v)]"
  by (induction d) auto

lemma dict_set_values: "snd ` set (dict_set d k v) \<subseteq> insert v (snd ` set d)"
proof (induction d)
  case Nil show ?case by simp
next
  case (Cons kv d)
  obtain k' v' where kv: "kv = (k', v')" by (cases kv)
  show ?case
  proof (cases "k' = k")
    case True then show ?thesis by (auto simp: kv)
  next
    case False
    with Cons.IH show ?thesis by (auto simp: kv)
  qed
qed

lemma foldl_dict_set_distinct:
  "distinct (map fst acc) \<Longrightarrow> distinct (map fst (foldl (\<lambda>d (k, v). dict_set d k v) acc items))"
  by (induction items arbitrary: acc) (auto simp: dict_set_keys split: prod.splits)

lemma foldl_dict_set_values:
  "snd ` set (foldl (\<lambda>d (k, v). dict_set d k v) acc items) \<subseteq> snd ` set acc \<union> snd ` set items"
proof (induction items arbitrary: acc)
  case Nil show ?case by simp
next
  case (Cons kv items)
  obtain k v where kv: "kv = (k, v)" by (cases kv)
  have "snd ` set (foldl (\<lambda>d (k, v). dict_set d k v) (dict_set acc k v) items)
        \<subseteq> snd ` set (dict_set acc k v) \<union> snd ` set items"
    by (rule Cons.IH)
  also have "\<dots> \<subseteq> insert v (snd ` set acc) \<union> snd ` set items"
    using dict_set_values [of acc k v] by blast
  finally show ?case by (auto simp: kv)
qed

lemma foldl_dict_set_append:
  "distinct (map fst (acc @ items)) \<Longrightarrow> foldl (\<lambda>d (k, v). dict_set d k v) acc items = acc @ items"
proof (induction items arbitrary: acc)
  case Nil show ?case by simp
next
  case (Cons kv items)
  obtain k v where kv: "kv = (k, v)" by (cases kv)
  from Cons.prems have fresh: "k \<notin> set (map fst acc)" by (auto simp: kv)
  from Cons.prems have "distinct (map fst ((acc @ [(k, v)]) @ items))" by (simp add: kv)
  then have "foldl (\<lambda>d (k, v). dict_set d k v) (acc @ [(k, v)]) items = (acc @ [(k, v)]) @ items"
    by (rule Cons.IH)
  with fresh show ?case by (simp add: kv dict_set_fresh)
qed

lemma dict_of_items_distinct: "distinct (map fst (dict_of_items items))"
  unfolding dict_of_items_def by (rule foldl_dict_set_distinct) simp

lemma dict_of_items_values: "snd ` set (dict_of_items items) \<subseteq> snd ` set items"
  unfolding dict_of_items_def using foldl_dict_set_values [of "[]" items] by simp

lemma dict_of_items_valuesD: "(k, v) \<in> set (dict_of_items items) \<Longrightarrow> \<exists>k'. (k', v) \<in> set items"
  using dict_of_items_values [of items] by force

lemma dict_of_items_id: "distinct (map fst items) \<Longrightarrow> dict_of_items items = items"
  unfolding dict_of_items_def using foldl_dict_set_append [of "[]" items] by simp

text \<open>Every value \<open>_flatten_dict\<close> emits is a scalar: only the last branch appends.\<close>

lemma flatten_items_scalar:
  "\<forall>v \<in> snd ` set (flatten_items d parent_key sep). scalar v"
  "\<forall>v \<in> snd ` set (flatten_list xs key sep i). scalar v"
proof (induction d parent_key sep and xs key sep i rule: flatten_items_flatten_list.induct)
qed (auto simp: scalar_def dest!: dict_of_items_valuesD)

lemma flatten_items_of_scalars:
  "\<forall>v \<in> snd ` set d. scalar v \<Longrightarrow> flatten_items d [] sep = d"
proof (induction d)
  case Nil show ?case by simp
next
  case (Cons kv d)
  obtain k v where kv: "kv = (k, v)" by (cases kv)
  from Cons.prems have "scalar v" by (simp add: kv)
  moreover from Cons have "flatten_items d [] sep = d" by simp
  ultimately show ?case by (cases v) (simp_all add: kv scalar_def new_key_def)
qed

text \<open>
  A second pass finds scalars only, under an empty parent key, and rebuilds the same
  dict.  This holds for every mapping, nested or not.
\<close>

lemma flatten_dict_idem:
  "flatten_dict (flatten_dict d parent_key sep) [] sep = flatten_dict d parent_key sep"
proof -
  let ?once = "flatten_dict d parent_key sep"
  have "\<forall>v \<in> snd ` set ?once. scalar v"
    unfolding flatten_dict_def
    using dict_of_items_values [of "flatten_items d parent_key sep"] flatten_items_scalar(1) [of d parent_key sep]
    by blast
  then have "flatten_items ?once [] sep = ?once" by (rule flatten_items_of_scalars)
  moreover have "distinct (map fst ?once)" unfolding flatten_dict_def by (rule dict_of_items_distinct)
  ultimately show ?thesis
    using dict_of_items_id [of ?once] by (simp add: flatten_dict_def)
qed

text \<open>
  C9.  Flattening is idempotent on an already-flat mapping: for every mapping \<open>m\<close> whose
  values contain no nested mappings, \<open>flatten (flatten m) = flatten m\<close>.
\<close>

theorem flatten_idempotent_on_flat:
  assumes "already_flat m"
  shows "flatten (flatten m) = flatten m"
  unfolding flatten_def by (rule flatten_dict_idem)

theorem flatten_idempotent_on_flat_witness:
  "already_flat flat_example
   \<and> flatten flat_example = [(''id'', PInt 7), (''name'', PStr ''Ann''), (''note'', PNone)]
   \<and> flatten (flatten flat_example) = flatten flat_example"
proof -
  have h: "already_flat flat_example" by (simp add: already_flat_def flat_example_def)
  have "flatten flat_example = [(''id'', PInt 7), (''name'', PStr ''Ann''), (''note'', PNone)]"
    by (simp add: flatten_def flatten_dict_def dict_of_items_def flat_example_def new_key_def)
  with h flatten_idempotent_on_flat [OF h] show ?thesis by simp
qed

section \<open>Properties of the content hash\<close>

text \<open>
  Sorting by key acts alike on two item lists that agree key by key, and two item lists
  with the same items under distinct keys sort to the same list.
\<close>

lemma insort_key_rel:
  assumes "list_all2 (\<lambda>a b. fst a = fst b \<and> R a b) xs ys" and "fst x = fst y" and "R x y"
  shows "list_all2 (\<lambda>a b. fst a = fst b \<and> R a b) (insort_key fst x xs) (insort_key fst y ys)"
  using assms by (induction xs ys rule: list_all2_induct) auto

lemma sort_key_rel:
  assumes "list_all2 (\<lambda>a b. fst a = fst b \<and> R a b) xs ys"
  shows "list_all2 (\<lambda>a b. fst a = fst b \<and> R a b) (sort_key fst xs) (sort_key fst ys)"
  using assms by (induction xs ys rule: list_all2_induct) (auto intro: insort_key_rel)

lemma filter_key_distinct:
  "distinct (map f xs) \<Longrightarrow> k \<in> set xs \<Longrightarrow> filter (\<lambda>x. f k = f x) xs = [k]"
proof (induction xs)
  case Nil then show ?case by simp
next
  case (Cons a xs)
  show ?case
  proof (cases "a = k")
    case True
    with Cons.prems have "filter (\<lambda>x. f k = f x) xs = []"
      by (auto simp: filter_empty_conv)
    with True show ?thesis by simp
  next
    case False
    with Cons.prems have k: "k \<in> set xs" by auto
    then have "f k \<in> f ` set xs" by (rule imageI)
    with Cons.prems have "f k \<noteq> f a" by auto
    with k Cons show ?thesis by simp
  qed
qed

lemma sort_key_permuted:
  assumes "mset zs = mset ys" and "distinct (map f ys)"
  shows "sort_key f zs = sort_key f ys"
proof (rule properties_for_sort_key)
  show "mset (sort_key f ys) = mset zs" using assms(1) by simp
  show "sorted (map f (sort_key f ys))" by simp
  fix k assume k: "k \<in> set (sort_key f ys)"
  have "mset (map f zs) = mset (map f ys)" using assms(1) by (metis mset_map)
  then have dz: "distinct (map f zs)" using assms(2) by (metis mset_eq_imp_distinct_iff)
  have "mset (map f (sort_key f ys)) = mset (map f ys)" by simp
  then have ds: "distinct (map f (sort_key f ys))" using assms(2) by (metis mset_eq_imp_distinct_iff)
  have kz: "k \<in> set zs" using k assms(1) by (metis mset_eq_setD set_sort)
  show "filter (\<lambda>x. f k = f x) (sort_key f ys) = filter (\<lambda>x. f k = f x) zs"
    by (simp only: filter_key_distinct [OF ds k] filter_key_distinct [OF dz kz])
qed

lemma map_cong_rel: "list_all2 (\<lambda>a b. g a = g b) xs ys \<Longrightarrow> map g xs = map g ys"
  by (induction xs ys rule: list_all2_induct) auto

text \<open>Equal payloads are written as the same text.\<close>

lemma json_dumps_same_payload:
  "same_payload p q \<Longrightarrow> json_dumps float_repr p = json_dumps float_repr q"
proof (induction rule: same_payload.induct)
  case (same_scalar v)
  show ?case by simp
next
  case (same_list xs ys)
  then have "list_all2 (\<lambda>a b. json_dumps float_repr a = json_dumps float_repr b) xs ys"
    by (simp add: list_all2_conv_all_nth)
  then have "map (json_dumps float_repr) xs = map (json_dumps float_repr) ys"
    by (rule map_cong_rel)
  then show ?case by simp
next
  case (same_dict xs zs ys)
  let ?item = "\<lambda>kv. encode_string (fst kv) @ '': '' @ json_dumps float_repr (snd kv)"
  from same_dict.IH
  have "list_all2 (\<lambda>a b. fst a = fst b \<and> json_dumps float_repr (snd a) = json_dumps float_repr (snd b)) xs zs"
    by (simp add: list_all2_conv_all_nth)
  then have "list_all2 (\<lambda>a b. fst a = fst b \<and> json_dumps float_repr (snd a) = json_dumps float_repr (snd b))
               (sort_key fst xs) (sort_key fst zs)"
    by (rule sort_key_rel)
  then have "list_all2 (\<lambda>a b. ?item a = ?item b) (sort_key fst xs) (sort_key fst zs)"
    by (simp add: list_all2_conv_all_nth)
  then have "map ?item (sort_key fst xs) = map ?item (sort_key fst zs)"
    by (rule map_cong_rel)
  moreover have "sort_key fst zs = sort_key fst ys"
    using same_dict.hyps by (rule sort_key_permuted)
  ultimately show ?case by simp
qed

text \<open>
  C8.  The content hash is a function of the payload alone (the load timestamp is not
  hashed), and two equal payloads have the same hash whatever the insertion order of
  their mapping keys, at every nesting depth, because the items of every mapping are
  sorted by key before they are written and hashed.
\<close>

theorem content_hash_equal_payloads:
  assumes "same_payload p q"
  shows "content_hash md5 float_repr p = content_hash md5 float_repr q"
  using json_dumps_same_payload [OF assms] by (simp add: content_hash_def)

lemma same_payload_example: "same_payload payload_ba payload_ab"
  unfolding payload_ba_def payload_ab_def
proof (rule same_dict)
  show "mset [(''b'', PInt 1), (''a'', PList [PDict [(''x'', PNone), (''y'', PStr ''q'')]])]
        = mset [(''a'', PList [PDict [(''x'', PNone), (''y'', PStr ''q'')]]), (''b'', PInt 1)]"
    by simp
  show "distinct (map fst [(''a'', PList [PDict [(''x'', PNone), (''y'', PStr ''q'')]]), (''b'', PInt 1)])"
    by simp
  have inner: "same_payload (PDict [(''y'', PStr ''q''), (''x'', PNone)]) (PDict [(''x'', PNone), (''y'', PStr ''q'')])"
  proof (rule same_dict)
    show "list_all2 (\<lambda>a b. fst a = fst b \<and> same_payload (snd a) (snd b))
            [(''y'', PStr ''q''), (''x'', PNone)] [(''y'', PStr ''q''), (''x'', PNone)]"
      by (simp add: same_scalar scalar_def)
    show "mset [(''y'', PStr ''q''), (''x'', PNone)] = mset [(''x'', PNone), (''y'', PStr ''q'')]" by simp
    show "distinct (map fst [(''x'', PNone), (''y'', PStr ''q'')])" by simp
  qed
  show "list_all2 (\<lambda>a b. fst a = fst b \<and> same_payload (snd a) (snd b))
          [(''b'', PInt 1), (''a'', PList [PDict [(''y'', PStr ''q''), (''x'', PNone)]])]
          [(''b'', PInt 1), (''a'', PList [PDict [(''x'', PNone), (''y'', PStr ''q'')]])]"
    by (simp add: same_scalar scalar_def same_list inner)
qed

theorem content_hash_equal_payloads_witness:
  "same_payload payload_ba payload_ab
   \<and> payload_ba \<noteq> payload_ab
   \<and> (\<forall>md5 float_repr. content_hash md5 float_repr payload_ba = content_hash md5 float_repr payload_ab)"
  using same_payload_example content_hash_equal_payloads [OF same_payload_example]
  by (simp add: payload_ba_def payload_ab_def)

section \<open>Properties of the base pipeline\<close>

text \<open>\<open>_standardize_data_types\<close> keeps the shape of the frame.\<close>

lemma try_convert_shape:
  assumes "try_convert convert df c = Inr df'"
  shows "n_rows df' = n_rows df \<and> (cols df' = [] \<longleftrightarrow> cols df = [])"
proof (cases "get_col df c")
  case None
  with assms show ?thesis by (simp add: try_convert_def)
next
  case (Some vs)
  then have "cols df \<noteq> []" by (auto simp: get_col_def)
  with assms Some show ?thesis
    by (auto simp: try_convert_def set_col_shape split: sum.splits exn.splits)
qed

lemma standardize_column_shape:
  assumes "standardize_column e df c = Inr df'"
  shows "n_rows df' = n_rows df \<and> (cols df' = [] \<longleftrightarrow> cols df = [])"
  using assms
  by (auto simp: standardize_column_def split: sum.splits if_splits dest!: try_convert_shape)

lemma standardize_columns_shape:
  "standardize_columns e df cs = Inr df' \<Longrightarrow> n_rows df' = n_rows df \<and> (cols df' = [] \<longleftrightarrow> cols df = [])"
proof (induction cs arbitrary: df)
  case Nil then show ?case by simp
next
  case (Cons c cs)
  then show ?case
    by (auto split: sum.splits dest!: standardize_column_shape)
qed

text \<open>
  What holds of every batch an entry point returns: \<open>record_count\<close> is 1 for a single
  mapping and the number of rows otherwise, and the records are as many as soon as one
  mapping of the payload has a field.
\<close>

lemma transform_payload_counts:
  assumes "transform_payload e payload source = Inr b"
  shows "record_count (metadata b) = payload_rows payload
       \<and> length (data b) = (if has_field payload then payload_rows payload else 0)"
proof -
  from assms obtain df df' where
    df: "convert_to_dataframe payload = Inr df" and
    df': "standardize_data_types e df = Inr df'" and
    b: "b = \<lparr>data = to_dict_records df', metadata = generate_metadata e payload source, raw_data = payload\<rparr>"
    by (auto simp: transform_payload_def split: sum.splits)
  from df' have shape: "n_rows df' = n_rows df" "cols df' = [] \<longleftrightarrow> cols df = []"
    using standardize_columns_shape [of e df "df_columns df" df']
    by (simp_all add: standardize_data_types_def)
  from df have "n_rows df = payload_rows payload \<and> (cols df = [] \<longleftrightarrow> \<not> has_field payload)"
    by (cases payload) (auto simp: convert_to_dataframe_def data_frame_def column_names_Nil_iff)
  with shape b show ?thesis
    by (cases payload) (auto simp: length_to_dict_records generate_metadata_def)
qed

text \<open>The same for each of the three entry points.\<close>

lemma entry_points_counts:
  assumes "transform_api_data e payload base_url endpoint = Inr b
         \<or> transform_database_data e payload source_name = Inr b
         \<or> transform_file_data e payload file_path file_source = Inr b"
  shows "record_count (metadata b) = payload_rows payload
       \<and> length (data b) = (if has_field payload then payload_rows payload else 0)"
  using assms transform_payload_counts [of e payload _ b]
  by (auto simp: transform_api_data_def transform_database_data_def transform_file_data_def)

text \<open>
  C1 at the payload \<open>{}\<close>, a single mapping without fields (an API answering with an
  empty object): the batch is returned with \<open>record_count = 1\<close> and no record at all,
  so the length of \<open>data\<close> differs from the count in the metadata.
\<close>

theorem transform_api_data_empty_mapping:
  "transform_api_data e (Single []) base_url endpoint =
     Inr \<lparr>data = [],
          metadata = \<lparr>load_timestamp = env_now e,
                      source_system = ''API:'' @ base_url @ endpoint,
                      data_hash = env_md5 e ''{}'',
                      record_count = 1,
                      schema_version = ''1.0'',
                      quality_metrics = None\<rparr>,
          raw_data = Single []\<rparr>"
  by (simp add: transform_api_data_def transform_payload_def convert_to_dataframe_def
      data_frame_def column_names_def standardize_data_types_def df_columns_def
      to_dict_records_def generate_metadata_def content_hash_def)

section \<open>Properties of the quality metrics\<close>

text \<open>The mean of the null flags is \<open>nullCount / rowCount\<close>, and \<open>nunique\<close> is \<open>distinctCount\<close>.\<close>

lemma sum_null_flags:
  "sum_list (map (\<lambda>v. if is_null v then 1 else (0::rat)) vs) = of_nat (null_count vs)"
  by (induction vs) (simp_all add: null_count_def)

lemma mean_null_count: "mean_null vs = of_nat (null_count vs) / of_nat (length vs)"
  by (simp add: mean_null_def sum_null_flags)

lemma nunique_distinct_count: "nunique vs = Inr k \<Longrightarrow> k = distinct_count vs"
  by (auto simp: nunique_def distinct_count_def length_remdups_card_conv split: option.splits
      intro!: arg_cong [where f = card])

lemma uniqueness_items_formula:
  "uniqueness_items n cs = Inr u \<Longrightarrow>
   u = map (\<lambda>(c, vs). (c, of_nat (distinct_count vs) / of_nat (max 1 n))) cs"
proof (induction cs arbitrary: u)
  case Nil then show ?case by simp
next
  case (Cons cv cs)
  obtain c vs where cv: "cv = (c, vs)" by (cases cv)
  from Cons.prems obtain k u' where k: "nunique vs = Inr k" and u': "uniqueness_items n cs = Inr u'"
    and u: "u = (c, of_nat k / of_nat (max 1 n)) # u'"
    by (auto simp: cv split: sum.splits)
  from k have "k = distinct_count vs" by (rule nunique_distinct_count)
  moreover from u' have "u' = map (\<lambda>(c, vs). (c, of_nat (distinct_count vs) / of_nat (max 1 n))) cs"
    by (rule Cons.IH)
  ultimately show ?case by (simp add: u cv)
qed

lemma calculate_empty: "df_empty df \<Longrightarrow> calculate_quality_metrics df = Inl EmptyBatch"
  by (simp add: calculate_quality_metrics_def)

lemma calculate_formulas:
  assumes "calculate_quality_metrics df = Inr m"
  shows "completeness m = map (\<lambda>(c, vs). (c, 1 - of_nat (null_count vs) / of_nat (length vs))) (cols df)
       \<and> uniqueness m = map (\<lambda>(c, vs). (c, of_nat (distinct_count vs) / of_nat (max 1 (n_rows df)))) (cols df)"
proof -
  from assms have ne: "\<not> df_empty df" by (auto simp: calculate_quality_metrics_def split: if_splits)
  then have "n_rows df \<noteq> 0" by (simp add: df_empty_def)
  with assms ne obtain u where u: "uniqueness_items (n_rows df) (cols df) = Inr u"
    and m: "m = \<lparr>completeness = map (\<lambda>(c, vs). (c, 1 - mean_null vs)) (cols df), uniqueness = u\<rparr>"
    by (auto simp: calculate_quality_metrics_def split: sum.splits)
  from u have "u = map (\<lambda>(c, vs). (c, of_nat (distinct_count vs) / of_nat (max 1 (n_rows df)))) (cols df)"
    by (rule uniqueness_items_formula)
  with m show ?thesis by (simp add: mean_null_count)
qed


text \<open>
  No step before the metrics raises \<open>ValueError\<close> on a list of mappings, and the stage
  calls \<open>_calculate_quality_metrics\<close> on a non-empty frame only.
\<close>

lemma try_convert_no_ValueError: "try_convert convert df c \<noteq> Inl (ValueError m)"
  by (auto simp: try_convert_def split: option.splits sum.splits exn.splits)

lemma standardize_column_no_ValueError: "standardize_column e df c \<noteq> Inl (ValueError m)"
  by (auto simp: standardize_column_def try_convert_no_ValueError split: sum.splits)

lemma standardize_columns_no_ValueError: "standardize_columns e df cs \<noteq> Inl (ValueError m)"
  by (induction cs arbitrary: df) (auto simp: standardize_column_no_ValueError split: sum.splits)

lemma transform_database_data_no_EmptyBatch:
  "transform_database_data e payload source_name \<noteq> Inl EmptyBatch"
  by (auto simp: transform_database_data_def transform_payload_def convert_to_dataframe_def
      EmptyBatch_def standardize_data_types_def standardize_columns_no_ValueError
      split: sum.splits raw_payload.splits)

lemma uniqueness_items_no_ValueError: "uniqueness_items n cs \<noteq> Inl (ValueError m)"
proof (induction cs)
  case Nil show ?case by simp
next
  case (Cons cv cs)
  obtain c vs where cv: "cv = (c, vs)" by (cases cv)
  have "unhashable vs \<noteq> Some (ValueError m)"
    by (induction vs rule: unhashable.induct) simp_all
  then have "nunique vs \<noteq> Inl (ValueError m)"
    by (auto simp: nunique_def split: option.splits)
  with Cons show ?case by (auto simp: cv split: sum.splits)
qed

lemma calculate_nonempty_no_EmptyBatch:
  "\<not> df_empty df \<Longrightarrow> calculate_quality_metrics df \<noteq> Inl EmptyBatch"
  by (auto simp: calculate_quality_metrics_def EmptyBatch_def uniqueness_items_no_ValueError
      split: sum.splits)

lemma quality_stage_no_EmptyBatch:
  "quality_transform_database_data e payload source_name \<noteq> Inl EmptyBatch"
  using transform_database_data_no_EmptyBatch [of e payload source_name]
  by (auto simp: quality_transform_database_data_def Let_def calculate_nonempty_no_EmptyBatch
      split: sum.splits)

lemma quality_stage_empty_frame:
  "transform_database_data e payload source_name = Inr b \<Longrightarrow> df_empty (data_frame (data b)) \<Longrightarrow>
   quality_transform_database_data e payload source_name = Inr (with_quality b empty_metrics)"
  by (simp add: quality_transform_database_data_def)

text \<open>
  On a frame without list and dict cells no \<open>nunique\<close> raises, and the comprehension of
  \<open>uniqueness\<close> is the spec's formula; on any other frame it raises \<open>TypeError\<close>.
\<close>

lemma unhashable_None_iff: "unhashable vs = None \<longleftrightarrow> list_all scalar_cell vs"
  by (induction vs rule: unhashable.induct) simp_all

lemma unhashable_TypeError: "unhashable vs = Some x \<Longrightarrow> \<exists>m. x = TypeError m"
  by (induction vs rule: unhashable.induct) auto

lemma nunique_scalar: "list_all scalar_cell vs \<Longrightarrow> nunique vs = Inr (distinct_count vs)"
proof -
  assume "list_all scalar_cell vs"
  then have "unhashable vs = None" by (simp add: unhashable_None_iff)
  then obtain k where k: "nunique vs = Inr k" by (simp add: nunique_def)
  from nunique_distinct_count [OF k] k show ?thesis by simp
qed

lemma nunique_not_scalar: "\<not> list_all scalar_cell vs \<Longrightarrow> \<exists>m. nunique vs = Inl (TypeError m)"
proof -
  assume "\<not> list_all scalar_cell vs"
  then obtain x where x: "unhashable vs = Some x" by (auto simp: unhashable_None_iff [symmetric])
  from unhashable_TypeError [OF x] x show ?thesis by (auto simp: nunique_def)
qed

lemma uniqueness_items_scalar:
  "list_all (\<lambda>(c, vs). list_all scalar_cell vs) cs \<Longrightarrow>
   uniqueness_items n cs = Inr (map (\<lambda>(c, vs). (c, of_nat (distinct_count vs) / of_nat (max 1 n))) cs)"
  by (induction cs) (auto simp: nunique_scalar)

lemma uniqueness_items_not_scalar:
  "\<not> list_all (\<lambda>(c, vs). list_all scalar_cell vs) cs \<Longrightarrow>
   \<exists>m. uniqueness_items n cs = Inl (TypeError m)"
proof (induction cs)
  case Nil then show ?case by simp
next
  case (Cons cv cs)
  obtain c vs where cv: "cv = (c, vs)" by (cases cv)
  show ?case
  proof (cases "list_all scalar_cell vs")
    case False
    from nunique_not_scalar [OF this] show ?thesis by (auto simp: cv)
  next
    case True
    with Cons.prems have "\<not> list_all (\<lambda>(c, vs). list_all scalar_cell vs) cs" by (simp add: cv)
    from Cons.IH [OF this] True show ?thesis by (auto simp: cv nunique_scalar)
  qed
qed

lemma calculate_scalar:
  assumes "\<not> df_empty df" and "well_formed df" and "scalar_cells df"
  shows "calculate_quality_metrics df = Inr (spec_metrics df)"
proof -
  from assms(1) have n: "n_rows df \<noteq> 0" by (simp add: df_empty_def)
  have "map (\<lambda>(c, vs). (c, 1 - mean_null vs)) (cols df)
        = map (\<lambda>(c, vs). (c, 1 - of_nat (null_count vs) / of_nat (n_rows df))) (cols df)"
    using assms(2) by (auto simp: well_formed_def list_all_iff mean_null_count)
  with assms(1) n uniqueness_items_scalar [OF assms(3) [unfolded scalar_cells_def], of "n_rows df"]
  show ?thesis by (simp add: calculate_quality_metrics_def spec_metrics_def)
qed

lemma calculate_not_scalar:
  assumes "\<not> df_empty df" and "\<not> scalar_cells df"
  shows "\<exists>m. calculate_quality_metrics df = Inl (TypeError m)"
proof -
  from assms(1) have n: "n_rows df \<noteq> 0" by (simp add: df_empty_def)
  from uniqueness_items_not_scalar [OF assms(2) [unfolded scalar_cells_def], of "n_rows df"]
  obtain m where "uniqueness_items (n_rows df) (cols df) = Inl (TypeError m)" by auto
  with assms(1) n show ?thesis by (simp add: calculate_quality_metrics_def)
qed

text \<open>The stage, case by case of the frame rebuilt from the base batch.\<close>

lemma quality_stage_scalar:
  assumes "transform_database_data e payload source_name = Inr b"
    and "\<not> df_empty (data_frame (data b))" and "scalar_cells (data_frame (data b))"
  shows "quality_transform_database_data e payload source_name
         = Inr (with_quality b (spec_metrics (data_frame (data b))))"
  using assms calculate_scalar [OF assms(2) well_formed_data_frame assms(3)]
  by (simp add: quality_transform_database_data_def)

lemma quality_stage_not_scalar:
  assumes "transform_database_data e payload source_name = Inr b"
    and "\<not> df_empty (data_frame (data b))" and "\<not> scalar_cells (data_frame (data b))"
  shows "\<exists>m. quality_transform_database_data e payload source_name = Inl (TypeError m)"
  using assms(1,2) calculate_not_scalar [OF assms(2,3)]
  by (auto simp: quality_transform_database_data_def)

lemma quality_stage_base_error:
  "transform_database_data e payload source_name = Inl x \<Longrightarrow>
   quality_transform_database_data e payload source_name = Inl x"
  by (simp add: quality_transform_database_data_def)

text \<open>
  C5, as the code has it.  \<open>_calculate_quality_metrics\<close> fails with \<open>EmptyBatch\<close> on
  every empty frame; on a frame that is not empty and has no list or dict cell it returns,
  per column, \<open>completeness = 1 - nullCount / rowCount\<close> and
  \<open>uniqueness = distinctCount / max(1, rowCount)\<close>, counting the distinct values that are
  not null; on a frame that is not empty and has such a cell it fails with \<open>TypeError\<close>.

  The stage \<open>transform_database_data\<close> never fails with \<open>EmptyBatch\<close>.  When the base
  transformation fails, the stage fails with its error.  When it returns a batch, the
  stage looks at the frame rebuilt from the records of the batch: for an empty frame it
  attaches empty metric maps, for a frame without list and dict cells it attaches the
  metrics of the two formulas, and for any other frame it fails with \<open>TypeError\<close>.
  Neither looks at the raw payload.
\<close>

theorem quality_metrics_as_coded:
  "(df_empty df \<longrightarrow> calculate_quality_metrics df = Inl EmptyBatch)
   \<and> (\<not> df_empty df \<and> well_formed df \<and> scalar_cells df \<longrightarrow>
        calculate_quality_metrics df =
          Inr \<lparr>completeness =
                 map (\<lambda>(c, vs). (c, 1 - of_nat (null_count vs) / of_nat (n_rows df))) (cols df),
               uniqueness =
                 map (\<lambda>(c, vs). (c, of_nat (distinct_count vs) / of_nat (max 1 (n_rows df)))) (cols df)\<rparr>)
   \<and> (\<not> df_empty df \<and> \<not> scalar_cells df \<longrightarrow>
        (\<exists>m. calculate_quality_metrics df = Inl (TypeError m)))
   \<and> quality_transform_database_data e payload source_name \<noteq> Inl EmptyBatch
   \<and> (\<forall>x. transform_database_data e payload source_name = Inl x \<longrightarrow>
        quality_transform_database_data e payload source_name = Inl x)
   \<and> (\<forall>b. transform_database_data e payload source_name = Inr b \<longrightarrow>
        (df_empty (data_frame (data b)) \<longrightarrow>
           quality_transform_database_data e payload source_name = Inr (with_quality b empty_metrics))
        \<and> (\<not> df_empty (data_frame (data b)) \<and> scalar_cells (data_frame (data b)) \<longrightarrow>
             quality_transform_database_data e payload source_name =
               Inr (with_quality b
                 \<lparr>completeness =
                    map (\<lambda>(c, vs). (c, 1 - of_nat (null_count vs) / of_nat (n_rows (data_frame (data b)))))
                      (cols (data_frame (data b))),
                  uniqueness =
                    map (\<lambda>(c, vs). (c, of_nat (distinct_count vs) / of_nat (max 1 (n_rows (data_frame (data b))))))
                      (cols (data_frame (data b)))\<rparr>))
        \<and> (\<not> df_empty (data_frame (data b)) \<and> \<not> scalar_cells (data_frame (data b)) \<longrightarrow>
             (\<exists>m. quality_transform_database_data e payload source_name = Inl (TypeError m))))"
  using calculate_empty [of df] calculate_scalar [of df] calculate_not_scalar [of df]
    quality_stage_no_EmptyBatch [of e payload source_name]
    quality_stage_base_error [of e payload source_name]
    quality_stage_empty_frame [of e payload source_name]
    quality_stage_scalar [of e payload source_name]
    quality_stage_not_scalar [of e payload source_name]
  unfolding spec_metrics_def by blast

lemma distinct_count_remdups:
  "distinct_count vs = length (remdups (map hash_key (filter (\<lambda>v. \<not> is_null v) vs)))"
proof -
  have "hash_key ` {v \<in> set vs. \<not> is_null v} = set (map hash_key (filter (\<lambda>v. \<not> is_null v) vs))"
    by auto
  then show ?thesis by (simp add: distinct_count_def length_remdups_card_conv)
qed

lemma sample_frame:
  "data_frame sample_rows =
     \<lparr>n_rows = 3, cols = [(''a'', [PInt 1, PBool True, PInt 2]), (''b'', [PNone, PStr ''x'', PNaN])]\<rparr>"
  by (simp add: data_frame_def sample_rows_def column_names_def cell_def)

lemma list_frame:
  "data_frame list_rows = \<lparr>n_rows = 1, cols = [(''tags'', [PList [PStr ''x'']])]\<rparr>"
  by (simp add: data_frame_def list_rows_def column_names_def cell_def)

lemma number_frame:
  "data_frame number_rows =
     \<lparr>n_rows = 3, cols = [(''a'', [PInt 1, PInt 2, PInt 2]),
                         (''b'', [PFloat (3 / 2), PNaN, PFloat (3 / 2)])]\<rparr>"
  by (simp add: data_frame_def number_rows_def column_names_def cell_def)

lemma empty_payload_batch:
  "transform_database_data e (Rows []) ''db'' =
     Inr \<lparr>data = [], metadata = generate_metadata e (Rows []) ''db'', raw_data = Rows []\<rparr>"
  by (simp add: transform_database_data_def transform_payload_def convert_to_dataframe_def
      data_frame_def column_names_def standardize_data_types_def df_columns_def to_dict_records_def)

lemma number_batch:
  "transform_database_data (numbers_env now md5 float_repr) (Rows number_rows) ''db'' =
     Inr \<lparr>data = [[(''a'', PInt 1), (''b'', PFloat (3 / 2))], [(''a'', PInt 2), (''b'', PNaN)],
                  [(''a'', PInt 2), (''b'', PFloat (3 / 2))]],
          metadata = generate_metadata (numbers_env now md5 float_repr) (Rows number_rows) ''db'',
          raw_data = Rows number_rows\<rparr>"
proof -
  have "[0..<3] = [0, 1, Suc 1]" by (simp add: upt_rec)
  then show ?thesis
    by (simp add: transform_database_data_def transform_payload_def convert_to_dataframe_def
        number_frame standardize_data_types_def df_columns_def standardize_column_def
        object_column_def get_col_def numbers_env_def to_dict_records_def cell_at_def)
qed

lemma list_batch:
  "transform_database_data (numbers_env now md5 float_repr) (Rows list_rows) ''db'' =
     Inr \<lparr>data = list_rows,
          metadata = generate_metadata (numbers_env now md5 float_repr) (Rows list_rows) ''db'',
          raw_data = Rows list_rows\<rparr>"
proof -
  have "to_dict_records \<lparr>n_rows = 1, cols = [(''tags'', [PList [PStr ''x'']])]\<rparr> = list_rows"
    by (simp add: to_dict_records_def cell_at_def list_rows_def)
  then show ?thesis
    by (simp add: transform_database_data_def transform_payload_def convert_to_dataframe_def
        list_frame standardize_data_types_def df_columns_def standardize_column_def
        object_column_def get_col_def numbers_env_def try_convert_def)
qed

theorem quality_metrics_as_coded_witness:
  "df_empty (data_frame [])
   \<and> calculate_quality_metrics (data_frame []) = Inl EmptyBatch
   \<and> \<not> df_empty (data_frame sample_rows) \<and> well_formed (data_frame sample_rows)
   \<and> scalar_cells (data_frame sample_rows)
   \<and> calculate_quality_metrics (data_frame sample_rows) =
        Inr \<lparr>completeness = [(''a'', 1), (''b'', 1 / 3)], uniqueness = [(''a'', 2 / 3), (''b'', 1 / 3)]\<rparr>
   \<and> \<not> df_empty (data_frame list_rows) \<and> \<not> scalar_cells (data_frame list_rows)
   \<and> (\<exists>m. calculate_quality_metrics (data_frame list_rows) = Inl (TypeError m))
   \<and> (\<forall>e. quality_transform_database_data e (Other PNone) ''db'' = Inl (ValueError ''Unsupported data type''))
   \<and> (\<forall>e. quality_transform_database_data e (Rows []) ''db'' =
             Inr (with_quality \<lparr>data = [], metadata = generate_metadata e (Rows []) ''db'',
                               raw_data = Rows []\<rparr> empty_metrics))
   \<and> (\<forall>now md5 float_repr.
        quality_transform_database_data (numbers_env now md5 float_repr) (Rows number_rows) ''db'' =
          Inr (with_quality
                 \<lparr>data = [[(''a'', PInt 1), (''b'', PFloat (3 / 2))], [(''a'', PInt 2), (''b'', PNaN)],
                          [(''a'', PInt 2), (''b'', PFloat (3 / 2))]],
                  metadata = generate_metadata (numbers_env now md5 float_repr) (Rows number_rows) ''db'',
                  raw_data = Rows number_rows\<rparr>
                 \<lparr>completeness = [(''a'', 1), (''b'', 2 / 3)],
                  uniqueness = [(''a'', 2 / 3), (''b'', 1 / 3)]\<rparr>))
   \<and> (\<forall>now md5 float_repr.
        \<exists>m. quality_transform_database_data (numbers_env now md5 float_repr) (Rows list_rows) ''db''
             = Inl (TypeError m))"
proof -
  have e1: "df_empty (data_frame [])" by (simp add: df_empty_def data_frame_def)
  have s1: "\<not> df_empty (data_frame sample_rows)" by (simp add: sample_frame df_empty_def)
  have s2: "well_formed (data_frame sample_rows)" by (rule well_formed_data_frame)
  have s3: "scalar_cells (data_frame sample_rows)" by (simp add: sample_frame scalar_cells_def)
  have l1: "\<not> df_empty (data_frame list_rows)" by (simp add: list_frame df_empty_def)
  have l2: "\<not> scalar_cells (data_frame list_rows)" by (simp add: list_frame scalar_cells_def)
  have sample: "calculate_quality_metrics (data_frame sample_rows) =
        Inr \<lparr>completeness = [(''a'', 1), (''b'', 1 / 3)], uniqueness = [(''a'', 2 / 3), (''b'', 1 / 3)]\<rparr>"
    using quality_metrics_as_coded [of "data_frame sample_rows" undefined "Rows []" "''db''"] s1 s2 s3
    by (simp add: sample_frame null_count_def distinct_count_remdups)
  have other: "transform_database_data e (Other PNone) ''db'' = Inl (ValueError ''Unsupported data type'')"
    for e
    by (simp add: transform_database_data_def transform_payload_def convert_to_dataframe_def)
  have refused: "quality_transform_database_data e (Other PNone) ''db'' = Inl (ValueError ''Unsupported data type'')"
    for e
    using quality_metrics_as_coded [of "data_frame []" e "Other PNone" "''db''"] other [of e]
    by blast
  have e2: "df_empty (data_frame (data \<lparr>data = [], metadata = generate_metadata e (Rows []) ''db'',
                               raw_data = Rows []\<rparr>))" for e
    by (simp add: df_empty_def data_frame_def)
  have empty: "quality_transform_database_data e (Rows []) ''db'' =
             Inr (with_quality \<lparr>data = [], metadata = generate_metadata e (Rows []) ''db'',
                               raw_data = Rows []\<rparr> empty_metrics)" for e
    using quality_metrics_as_coded [of "data_frame []" e "Rows []" "''db''"]
      empty_payload_batch [of e] e2 [of e] by blast
  let ?rows = "[[(''a'', PInt 1), (''b'', PFloat (3 / 2))], [(''a'', PInt 2), (''b'', PNaN)],
                [(''a'', PInt 2), (''b'', PFloat (3 / 2))]]"
  have nf: "data_frame ?rows =
     \<lparr>n_rows = 3, cols = [(''a'', [PInt 1, PInt 2, PInt 2]),
                         (''b'', [PFloat (3 / 2), PNaN, PFloat (3 / 2)])]\<rparr>"
    by (simp add: data_frame_def column_names_def cell_def)
  have numbers: "quality_transform_database_data (numbers_env now md5 float_repr) (Rows number_rows) ''db'' =
          Inr (with_quality
                 \<lparr>data = ?rows,
                  metadata = generate_metadata (numbers_env now md5 float_repr) (Rows number_rows) ''db'',
                  raw_data = Rows number_rows\<rparr>
                 \<lparr>completeness = [(''a'', 1), (''b'', 2 / 3)],
                  uniqueness = [(''a'', 2 / 3), (''b'', 1 / 3)]\<rparr>)" for now md5 float_repr
    using quality_metrics_as_coded [of "data_frame []" "numbers_env now md5 float_repr"
        "Rows number_rows" "''db''"] number_batch [of now md5 float_repr]
    by (simp add: nf df_empty_def scalar_cells_def null_count_def distinct_count_remdups)
  have lists: "\<exists>m. quality_transform_database_data (numbers_env now md5 float_repr) (Rows list_rows) ''db''
             = Inl (TypeError m)" for now md5 float_repr
    using quality_metrics_as_coded [of "data_frame []" "numbers_env now md5 float_repr"
        "Rows list_rows" "''db''"] list_batch [of now md5 float_repr] l1 l2
    by simp
  from quality_metrics_as_coded [of "data_frame []" undefined "Rows []" "''db''"] e1
  have "calculate_quality_metrics (data_frame []) = Inl EmptyBatch" by blast
  moreover from quality_metrics_as_coded [of "data_frame list_rows" undefined "Rows []" "''db''"] l1 l2
  have "\<exists>m. calculate_quality_metrics (data_frame list_rows) = Inl (TypeError m)" by blast
  ultimately show ?thesis
    using e1 s1 s2 s3 sample l1 l2 refused empty numbers lists by blast
qed

text \<open>
  C5 as stated fails.  The payload \<open>[{}]\<close> is a non-empty source whose batch has zero
  rows: the stage returns it with empty metric maps instead of failing with
  \<open>EmptyBatch\<close>.  And \<open>_calculate_quality_metrics\<close> on the frame of an empty payload,
  empty by design, fails with \<open>EmptyBatch\<close> instead of returning empty maps.
\<close>

theorem quality_metrics_ignore_source:
  "(\<forall>e. quality_transform_database_data e (Rows [[]]) ''db'' =
          Inr \<lparr>data = [],
               metadata = \<lparr>load_timestamp = env_now e, source_system = ''db'',
                           data_hash = env_md5 e ''[{}]'', record_count = 1,
                           schema_version = ''1.0'',
                           quality_metrics = Some \<lparr>completeness = [], uniqueness = []\<rparr>\<rparr>,
               raw_data = Rows [[]]\<rparr>)
   \<and> calculate_quality_metrics (data_frame []) = Inl (ValueError ''Cannot calculate metrics for empty DataFrame'')"
  by (simp add: quality_transform_database_data_def transform_database_data_def transform_payload_def
      convert_to_dataframe_def data_frame_def column_names_def standardize_data_types_def
      df_columns_def to_dict_records_def generate_metadata_def content_hash_def df_empty_def
      with_quality_def empty_metrics_def calculate_quality_metrics_def EmptyBatch_def)

section \<open>Properties of the business rules\<close>

text \<open>A code outside the rate table: the lookup raises, the stage skips the conversion.\<close>

lemma unknown_currency_skipped:
  assumes "map_of exchange_rates currency = None"
  shows "get_exchange_rate currency = Inl (UnsupportedCurrency currency)"
    and "apply_business_rules (convert_to currency) df = Inr df"
  using assms
  by (simp_all add: get_exchange_rate_def apply_business_rules_def convert_to_def price_rules_def
      UnsupportedCurrency_def split: option.splits)

lemma transform_file_data_no_ValueError_rows:
  "transform_file_data e payload file_path source_name \<noteq> Inl (UnsupportedCurrency currency)"
  by (auto simp: transform_file_data_def transform_payload_def convert_to_dataframe_def
      UnsupportedCurrency_def standardize_data_types_def standardize_columns_no_ValueError
      split: sum.splits raw_payload.splits)

text \<open>
  C6, as the code has it.  With the fixed rate table (\<open>EUR = 0.85\<close>), the rules stage
  on a batch with \<open>price = 100\<close> and \<open>convert_currency = "EUR"\<close> adds a
  \<open>price_usd\<close> column equal to 85.  With the unknown code \<open>"XXX"\<close> the rate lookup
  fails with \<open>UnsupportedCurrency\<close>; \<open>_apply_business_rules\<close> catches it and returns
  the frame as it was, so the stage does not fail with \<open>UnsupportedCurrency\<close>: it
  returns the batch of the base transformation, with no \<open>price_usd\<close> column and the
  \<open>price\<close> column unchanged.
\<close>

theorem business_rules_as_coded:
  "get_exchange_rate ''EUR'' = Inr (85 / 100)
   \<and> apply_business_rules (convert_to ''EUR'') price_100 =
       Inr \<lparr>n_rows = 1, cols = [(''price'', [PInt 100]), (''price_usd'', [PFloat 85])]\<rparr>
   \<and> get_exchange_rate ''XXX'' = Inl (UnsupportedCurrency ''XXX'')
   \<and> apply_business_rules (convert_to ''XXX'') df = Inr df
   \<and> business_transform_file_data e (convert_to ''XXX'') payload file_path source_name
       \<noteq> Inl (UnsupportedCurrency ''XXX'')
   \<and> business_transform_file_data e (convert_to ''XXX'') payload file_path source_name =
       (case transform_file_data e payload file_path source_name of
          Inl x \<Rightarrow> Inl x
        | Inr b \<Rightarrow> Inr (b\<lparr>data := to_dict_records (data_frame (data b))\<rparr>))"
proof -
  have none: "map_of exchange_rates ''XXX'' = None" by (simp add: exchange_rates_def)
  have eur: "get_exchange_rate ''EUR'' = Inr (85 / 100)"
    by (simp add: get_exchange_rate_def exchange_rates_def)
  have conv: "apply_business_rules (convert_to ''EUR'') price_100 =
       Inr \<lparr>n_rows = 1, cols = [(''price'', [PInt 100]), (''price_usd'', [PFloat 85])]\<rparr>"
    by (simp add: apply_business_rules_def eur convert_to_def price_rules_def price_100_def
        get_col_def set_col_def df_columns_def align_def)
  have stage: "business_transform_file_data e (convert_to ''XXX'') payload file_path source_name =
       (case transform_file_data e payload file_path source_name of
          Inl x \<Rightarrow> Inl x
        | Inr b \<Rightarrow> Inr (b\<lparr>data := to_dict_records (data_frame (data b))\<rparr>))"
    by (simp add: business_transform_file_data_def unknown_currency_skipped(2) [OF none]
        split: sum.splits)
  have "business_transform_file_data e (convert_to ''XXX'') payload file_path source_name
       \<noteq> Inl (UnsupportedCurrency ''XXX'')"
    using transform_file_data_no_ValueError_rows [of e payload file_path source_name "''XXX''"]
    by (auto simp: stage split: sum.splits)
  with eur conv stage unknown_currency_skipped [OF none] show ?thesis by simp
qed

text \<open>
  C6 as stated fails: on the batch with \<open>price = 100\<close> and \<open>convert_currency = "XXX"\<close>
  the rules return the batch, they do not fail.
\<close>

theorem business_rules_swallow_unknown_currency:
  "apply_business_rules (convert_to ''XXX'') price_100 =
     Inr \<lparr>n_rows = 1, cols = [(''price'', [PInt 100])]\<rparr>"
  by (simp add: apply_business_rules_def convert_to_def price_rules_def price_100_def get_col_def
      get_exchange_rate_def exchange_rates_def UnsupportedCurrency_def)

section \<open>Properties of anonymization\<close>

lemma hash_value_not_list:
  "\<not> is_list x \<Longrightarrow> hash_value sha256 py_str small_array x = Inr (hashed_cell sha256 py_str x)"
  by (cases x) (simp_all add: hash_value_def hashed_cell_def)

lemma hashed_cell_not_list: "\<not> is_list x \<Longrightarrow> \<not> is_list (hashed_cell sha256 py_str x)"
  by (simp add: hashed_cell_def)

lemma series_apply_not_list:
  "list_all (\<lambda>v. \<not> is_list v) vs \<Longrightarrow>
   series_apply (hash_value sha256 py_str small_array) vs = Inr (map (hashed_cell sha256 py_str) vs)"
  by (induction vs) (simp_all add: hash_value_not_list)

text \<open>
  Where no sensitive column holds a list, the loop succeeds, keeps the shape of the
  frame, leaves every other column as it was, and replaces each cell of a sensitive
  column by its hash, once per occurrence of the field in the configured list: a null
  cell stays null, equal cells get equal hashes, and an absent field changes nothing.
\<close>

lemma hash_sensitive_data_columns:
  assumes "well_formed df" and "scalar_columns fs df"
  shows "\<exists>df'. hash_sensitive_data sha256 py_str small_array fs df = Inr df'
           \<and> n_rows df' = n_rows df \<and> df_columns df' = df_columns df \<and> well_formed df'
           \<and> (\<forall>c vs. get_col df c = Some vs \<longrightarrow>
                 get_col df' c = Some (map (hashed_cell sha256 py_str ^^ count_list fs c) vs))"
  using assms
proof (induction fs arbitrary: df)
  case Nil
  then show ?case by simp
next
  case (Cons f fs)
  let ?h = "hashed_cell sha256 py_str"
  from Cons.prems(2) have rest: "scalar_columns fs df" by (simp add: scalar_columns_def)
  show ?case
  proof (cases "get_col df f")
    case None
    from Cons.IH [OF Cons.prems(1) rest] obtain df' where
      df': "hash_sensitive_data sha256 py_str small_array fs df = Inr df'"
        "n_rows df' = n_rows df" "df_columns df' = df_columns df" "well_formed df'"
        "\<forall>c vs. get_col df c = Some vs \<longrightarrow> get_col df' c = Some (map (?h ^^ count_list fs c) vs)"
      by blast
    have "get_col df' c = Some (map (?h ^^ count_list (f # fs) c) vs)" if "get_col df c = Some vs" for c vs
    proof -
      from that None have "c \<noteq> f" by auto
      with df'(5) that show ?thesis by simp
    qed
    with df'(1-4) None show ?thesis by simp
  next
    case (Some vs)
    with Cons.prems(2) have scal: "list_all (\<lambda>v. \<not> is_list v) vs" by (simp add: scalar_columns_def)
    then have app: "series_apply (hash_value sha256 py_str small_array) vs = Inr (map ?h vs)"
      by (rule series_apply_not_list)
    let ?df1 = "set_col df f (map ?h vs)"
    from Cons.prems(1) Some have len: "length vs = n_rows df"
      by (auto simp: well_formed_def get_col_def list_all_iff dest: map_of_SomeD)
    then have get1: "get_col ?df1 k = (if k = f then Some (map ?h vs) else get_col df k)" for k
      using get_col_set_col [OF Some, of "map ?h vs" k] by simp
    have wf1: "well_formed ?df1" using Cons.prems(1) by (rule set_col_existing(3) [OF Some])
    have "list_all (\<lambda>v. \<not> is_list v) (map ?h vs)"
      using scal by (simp add: list_all_iff hashed_cell_not_list)
    with rest have rest1: "scalar_columns fs ?df1"
      by (auto simp: scalar_columns_def list_all_iff get1)
    from Cons.IH [OF wf1 rest1] obtain df' where
      df': "hash_sensitive_data sha256 py_str small_array fs ?df1 = Inr df'"
        "n_rows df' = n_rows ?df1" "df_columns df' = df_columns ?df1" "well_formed df'"
        "\<forall>c ws. get_col ?df1 c = Some ws \<longrightarrow> get_col df' c = Some (map (?h ^^ count_list fs c) ws)"
      by blast
    have "get_col df' c = Some (map (?h ^^ count_list (f # fs) c) ws)" if c: "get_col df c = Some ws" for c ws
    proof (cases "c = f")
      case True
      with c Some have "ws = vs" by simp
      moreover from df'(5) get1 [of f] have "get_col df' f = Some (map (?h ^^ count_list fs f) (map ?h vs))"
        by simp
      ultimately show ?thesis using True by (simp add: funpow_swap1 comp_def)
    next
      case False
      with df'(5) get1 [of c] c show ?thesis by simp
    qed
    with df'(1-4) Some app show ?thesis
      by (simp add: set_col_existing(1,2) [OF Some])
  qed
qed

text \<open>
  C7 at a list-valued cell.  With \<open>telecom\<close> configured as a sensitive field and a
  patient whose \<open>telecom\<close> is a list of two contact points, \<open>pd.notnull\<close> answers
  with an array of two flags, the conditional asks for its truth value, and
  \<open>_anonymize_data\<close> raises \<open>ValueError\<close>: the non-null value is not replaced by a
  hash.
\<close>

theorem anonymize_data_list_cell:
  "anonymize_data sha256 py_str small_array [''telecom''] patients = Inl ambiguous_truth"
  by (simp add: anonymize_data_def patients_def get_col_def hash_value_def)

text \<open>
  The spec's example on the same frame: the two equal \<open>ssn\<close> values get the same hash,
  the null one stays null, the field that is not a column is passed over.
\<close>

lemma anonymize_data_ssn:
  "anonymize_data sha256 py_str small_array [''ssn'', ''absent''] patients =
     Inr (patients\<lparr>cols := [(''ssn'', [PStr (sha256 (py_str (PStr ''123''))), PNone, PStr (sha256 (py_str (PStr ''123'')))]),
                             (''telecom'', [PList [PDict [(''system'', PStr ''phone'')], PDict [(''system'', PStr ''email'')]],
                             PNone, PNone])]\<rparr>)"
  by (simp add: anonymize_data_def patients_def get_col_def hash_value_def set_col_def df_columns_def align_def)

section \<open>Properties of schema enforcement\<close>

lemma present_set_col:
  assumes "get_col df c = Some vs"
  shows "present (set_col df c ws) = present df"
  by (simp add: present_def [abs_def] set_col_existing(2) [OF assms])

lemma get_col_in_columns:
  assumes "get_col df c = Some vs"
  shows "c \<in> set (df_columns df)"
  using assms get_col_None_iff [of df c] by auto

lemma get_col_set_col_align:
  assumes "get_col df c = Some vs"
  shows "get_col (set_col df c ws) k = (if k = c then Some (align (n_rows df) ws) else get_col df k)"
  using get_col_in_columns [OF assms]
  by (simp add: get_col_def set_col_def map_of_replace df_columns_def)

lemma coerced_frame_Nil: "coerced_frame to_datetime cast [] df = df"
  by (simp add: coerced_frame_def split_def)

lemma coerced_frame_shape:
  "n_rows (coerced_frame to_datetime cast entries df) = n_rows df"
  "df_columns (coerced_frame to_datetime cast entries df) = df_columns df"
  by (auto simp: coerced_frame_def df_columns_def split: option.splits)

text \<open>Coercing one column and then others is coercing them all at once.\<close>

lemma coerced_frame_Cons:
  assumes "get_col df c = Some vs" and "c \<notin> fst ` set entries"
  shows "coerced_frame to_datetime cast entries (set_col df c (cast_values to_datetime cast t vs))
         = coerced_frame to_datetime cast ((c, t) # entries) df"
proof -
  let ?ws = "cast_values to_datetime cast t vs"
  let ?df1 = "set_col df c ?ws"
  let ?f = "\<lambda>(c', vs'). if c' = c then (c, align (n_rows df) ?ws) else (c', vs')"
  let ?g1 = "\<lambda>(k, vs'). case (map_of entries k, get_col ?df1 k) of
                (Some dtype, Some vs0) \<Rightarrow> (k, align (n_rows df) (cast_values to_datetime cast dtype vs0))
              | _ \<Rightarrow> (k, vs')"
  let ?g = "\<lambda>(k, vs'). case (map_of ((c, t) # entries) k, get_col df k) of
                (Some dtype, Some vs0) \<Rightarrow> (k, align (n_rows df) (cast_values to_datetime cast dtype vs0))
              | _ \<Rightarrow> (k, vs')"
  have c: "c \<in> set (df_columns df)" using assms(1) by (rule get_col_in_columns)
  have none: "map_of entries c = None" using assms(2) by (simp add: map_of_eq_None_iff)
  have df1: "?df1 = df\<lparr>cols := map ?f (cols df)\<rparr>"
    using c by (simp add: set_col_def)
  have maps: "map ?g1 (map ?f (cols df)) = map ?g (cols df)"
    using assms(1) none
    by (auto simp: get_col_set_col_align [OF assms(1)] split: option.splits)
  have "coerced_frame to_datetime cast entries ?df1 = ?df1\<lparr>cols := map ?g1 (cols ?df1)\<rparr>"
    unfolding coerced_frame_def set_col_shape(1) by (rule refl)
  also have "cols ?df1 = map ?f (cols df)"
    by (subst df1) simp
  also have "map ?g1 (map ?f (cols df)) = map ?g (cols df)"
    by (rule maps)
  also have "?df1\<lparr>cols := map ?g (cols df)\<rparr> = df\<lparr>cols := map ?g (cols df)\<rparr>"
    by (subst df1) simp
  also have "\<dots> = coerced_frame to_datetime cast ((c, t) # entries) df"
    by (simp add: coerced_frame_def)
  finally show ?thesis .
qed

text \<open>The columns of the coerced frame, one by one.\<close>

lemma get_col_coerced_frame:
  "get_col (coerced_frame to_datetime cast entries df) k =
     (case map_of entries k of
        None \<Rightarrow> get_col df k
      | Some dtype \<Rightarrow>
          map_option (\<lambda>vs. align (n_rows df) (cast_values to_datetime cast dtype vs)) (get_col df k))"
proof -
  have "map_of (map (\<lambda>(k', vs). case (map_of entries k', map_of cs0 k') of
                        (Some dtype, Some vs0) \<Rightarrow> (k', align n (cast_values to_datetime cast dtype vs0))
                      | _ \<Rightarrow> (k', vs)) cs) k
        = (case map_of cs k of
             None \<Rightarrow> None
           | Some vs \<Rightarrow>
               (case (map_of entries k, map_of cs0 k) of
                  (Some dtype, Some vs0) \<Rightarrow> Some (align n (cast_values to_datetime cast dtype vs0))
                | _ \<Rightarrow> Some vs))" for cs cs0 n
    by (induction cs) (auto split: option.splits)
  then show ?thesis
    by (auto simp: coerced_frame_def get_col_def split: option.splits)
qed

text \<open>
  The loop in closed form.  It coerces the configured columns, in schema order, as long
  as they are present and their type resolves, and stops at the first that is not: with
  \<open>MissingColumn\<close> when the column is missing, with the \<open>TypeError\<close> of pandas when it is
  present and its type does not resolve.  The keys of a schema, a dict, are distinct.
\<close>

lemma enforce_loop_closed_form:
  assumes "distinct (map fst schema)"
  shows "enforce_loop dtype_names to_datetime cast schema df assigned =
           \<lparr>outcome =
              (case dropWhile (\<lambda>entry. present df entry \<and> resolves dtype_names entry) schema of
                 [] \<Rightarrow> None
               | entry # _ \<Rightarrow>
                   Some (if present df entry then dtype_not_understood (snd entry)
                         else MissingColumn (fst entry))),
            frame_after =
              coerced_frame to_datetime cast
                (takeWhile (\<lambda>entry. present df entry \<and> resolves dtype_names entry) schema) df,
            coerced =
              assigned @ map fst (takeWhile (\<lambda>entry. present df entry \<and> resolves dtype_names entry) schema)\<rparr>"
  using assms
proof (induction schema arbitrary: df assigned)
  case Nil
  then show ?case by (simp add: coerced_frame_Nil)
next
  case (Cons entry schema)
  obtain c' t' where entry: "entry = (c', t')" by (cases entry)
  show ?case
  proof (cases "present df entry")
    case False
    then have "get_col df c' = None"
      by (simp add: get_col_None_iff present_def entry)
    with False show ?thesis by (simp add: entry coerced_frame_Nil)
  next
    case True
    then obtain vs where vs: "get_col df c' = Some vs"
      using get_col_None_iff [of df c'] by (auto simp: present_def entry)
    show ?thesis
    proof (cases "resolves dtype_names entry")
      case False
      then have "coerce dtype_names to_datetime cast t' vs = Inl (dtype_not_understood t')"
        by (simp add: resolves_def coerce_def entry)
      with True False vs show ?thesis by (simp add: entry coerced_frame_Nil)
    next
      case res: True
      let ?ws = "cast_values to_datetime cast t' vs"
      let ?df1 = "set_col df c' ?ws"
      let ?go = "\<lambda>entry. present df entry \<and> resolves dtype_names entry"
      have co: "coerce dtype_names to_datetime cast t' vs = Inr ?ws"
        using res by (auto simp: resolves_def coerce_def cast_values_def entry)
      have same: "present ?df1 = present df" using vs by (rule present_set_col)
      from Cons.prems have d: "distinct (map fst schema)" and fresh: "c' \<notin> fst ` set schema"
        by (simp_all add: entry)
      from fresh have "c' \<notin> fst ` set (takeWhile ?go schema)"
        by (auto dest: set_takeWhileD)
      then have fr: "coerced_frame to_datetime cast (takeWhile ?go schema) ?df1
                     = coerced_frame to_datetime cast ((c', t') # takeWhile ?go schema) df"
        using vs by (intro coerced_frame_Cons)
      from Cons.IH [OF d, of ?df1 "assigned @ [c']", unfolded same] True res vs co fr show ?thesis
        by (simp add: entry)
    qed
  qed
qed

lemma takeWhile_both:
  "list_all Q (takeWhile P xs) \<Longrightarrow> takeWhile (\<lambda>x. P x \<and> Q x) xs = takeWhile P xs"
  by (induction xs) auto

lemma dropWhile_both:
  "list_all Q (takeWhile P xs) \<Longrightarrow> dropWhile (\<lambda>x. P x \<and> Q x) xs = dropWhile P xs"
  by (induction xs) auto

lemma find_dropWhile:
  "find (\<lambda>x. \<not> P x) xs = Some x \<Longrightarrow> \<not> P x \<and> (\<exists>ys. dropWhile P xs = x # ys)"
  by (induction xs) (auto split: if_splits)

lemma find_in_takeWhile:
  "find (\<lambda>x. \<not> Q x) (takeWhile P xs) = Some x \<Longrightarrow>
     P x \<and> \<not> Q x \<and> takeWhile (\<lambda>x. P x \<and> Q x) xs = takeWhile Q (takeWhile P xs)
     \<and> (\<exists>ys. dropWhile (\<lambda>x. P x \<and> Q x) xs = x # ys)"
  by (induction xs) (auto split: if_splits)

text \<open>
  C3, as the code has it.  Take any schema with distinct keys and any frame missing at
  least one configured column, \<open>c\<close> being the first missing one in schema order.

  \<^item> When the type of every column configured before \<open>c\<close> is \<open>"datetime"\<close> or a name
    pandas resolves, \<open>_enforce_schema\<close> fails with \<open>MissingColumn c\<close>; by then it has
    coerced exactly the columns configured before \<open>c\<close>, and nothing else of the frame
    has changed.
  \<^item> When one of these types does not resolve, \<open>_enforce_schema\<close> fails with the
    \<open>TypeError\<close> of the first such type instead, and never reports the missing column;
    by then it has coerced exactly the columns configured before that one.
  \<^item> The coerced frame has the rows and column names of the frame given; a column
    configured among the coerced ones holds its coerced values, aligned to the index, and
    every other column holds what it held.
\<close>

theorem enforce_schema_missing_column:
  assumes "find (\<lambda>entry. \<not> present df entry) schema = Some (c, t)"
    and "distinct (map fst schema)"
  shows "(list_all (resolves dtype_names) (takeWhile (present df) schema) \<longrightarrow>
            enforce_schema dtype_names to_datetime cast schema df =
              \<lparr>outcome = Some (MissingColumn c),
               frame_after = coerced_frame to_datetime cast (takeWhile (present df) schema) df,
               coerced = map fst (takeWhile (present df) schema)\<rparr>)
       \<and> (\<forall>c' t'. find (\<lambda>entry. \<not> resolves dtype_names entry) (takeWhile (present df) schema)
                    = Some (c', t') \<longrightarrow>
            enforce_schema dtype_names to_datetime cast schema df =
              \<lparr>outcome = Some (dtype_not_understood t'),
               frame_after =
                 coerced_frame to_datetime cast
                   (takeWhile (resolves dtype_names) (takeWhile (present df) schema)) df,
               coerced = map fst (takeWhile (resolves dtype_names) (takeWhile (present df) schema))\<rparr>)
       \<and> (\<forall>entries. n_rows (coerced_frame to_datetime cast entries df) = n_rows df
            \<and> df_columns (coerced_frame to_datetime cast entries df) = df_columns df
            \<and> (\<forall>k. get_col (coerced_frame to_datetime cast entries df) k =
                  (case map_of entries k of
                     None \<Rightarrow> get_col df k
                   | Some dtype \<Rightarrow>
                       map_option (\<lambda>vs. align (n_rows df) (cast_values to_datetime cast dtype vs))
                         (get_col df k))))"
proof (intro conjI impI allI)
  assume all: "list_all (resolves dtype_names) (takeWhile (present df) schema)"
  from find_dropWhile [of "present df", OF assms(1)]
  obtain ys where "\<not> present df (c, t)" and "dropWhile (present df) schema = (c, t) # ys"
    by auto
  then show "enforce_schema dtype_names to_datetime cast schema df =
              \<lparr>outcome = Some (MissingColumn c),
               frame_after = coerced_frame to_datetime cast (takeWhile (present df) schema) df,
               coerced = map fst (takeWhile (present df) schema)\<rparr>"
    by (simp add: enforce_schema_def enforce_loop_closed_form [OF assms(2)]
        takeWhile_both [OF all] dropWhile_both [OF all])
next
  fix c' t'
  assume "find (\<lambda>entry. \<not> resolves dtype_names entry) (takeWhile (present df) schema) = Some (c', t')"
  from find_in_takeWhile [OF this]
  obtain ys where "present df (c', t')"
    and "takeWhile (\<lambda>x. present df x \<and> resolves dtype_names x) schema
         = takeWhile (resolves dtype_names) (takeWhile (present df) schema)"
    and "dropWhile (\<lambda>x. present df x \<and> resolves dtype_names x) schema = (c', t') # ys"
    by auto
  then show "enforce_schema dtype_names to_datetime cast schema df =
              \<lparr>outcome = Some (dtype_not_understood t'),
               frame_after =
                 coerced_frame to_datetime cast
                   (takeWhile (resolves dtype_names) (takeWhile (present df) schema)) df,
               coerced = map fst (takeWhile (resolves dtype_names) (takeWhile (present df) schema))\<rparr>"
    by (simp add: enforce_schema_def enforce_loop_closed_form [OF assms(2)])
qed (simp_all add: coerced_frame_shape get_col_coerced_frame)

theorem enforce_schema_missing_column_witness:
  "find (\<lambda>entry. \<not> present name_id_frame entry) id_created_name = Some (''created'', ''datetime'')
   \<and> distinct (map fst id_created_name)
   \<and> list_all (resolves builtin_dtypes) (takeWhile (present name_id_frame) id_created_name)
   \<and> (\<forall>to_datetime cast.
        enforce_schema builtin_dtypes to_datetime cast id_created_name name_id_frame =
          \<lparr>outcome = Some (MissingColumn ''created''),
           frame_after =
             \<lparr>n_rows = 2,
              cols = [(''name'', [PInt 1, PInt 2]),
                      (''id'', align 2 (cast ''int'' [PStr ''7'', PStr ''8'']))]\<rparr>,
           coerced = [''id'']\<rparr>)
   \<and> find (\<lambda>entry. \<not> present only_id_column entry) number_timestamp = Some (''created'', ''timestamp'')
   \<and> distinct (map fst number_timestamp)
   \<and> find (\<lambda>entry. \<not> resolves builtin_dtypes entry) (takeWhile (present only_id_column) number_timestamp)
       = Some (''id'', ''number'')
   \<and> (\<forall>to_datetime cast.
        enforce_schema builtin_dtypes to_datetime cast number_timestamp only_id_column =
          \<lparr>outcome = Some (dtype_not_understood ''number''),
           frame_after = only_id_column,
           coerced = []\<rparr>)"
proof -
  have h1: "find (\<lambda>entry. \<not> present name_id_frame entry) id_created_name = Some (''created'', ''datetime'')"
    by (simp add: present_def id_created_name_def name_id_frame_def df_columns_def)
  have d1: "distinct (map fst id_created_name)"
    by (simp add: id_created_name_def)
  have p1: "takeWhile (present name_id_frame) id_created_name = [(''id'', ''int'')]"
    by (simp add: present_def id_created_name_def name_id_frame_def df_columns_def)
  have r1: "list_all (resolves builtin_dtypes) (takeWhile (present name_id_frame) id_created_name)"
    by (simp add: p1 resolves_def builtin_dtypes_def)
  have f1: "coerced_frame to_datetime cast [(''id'', ''int'')] name_id_frame =
              \<lparr>n_rows = 2,
               cols = [(''name'', [PInt 1, PInt 2]),
                       (''id'', align 2 (cast ''int'' [PStr ''7'', PStr ''8'']))]\<rparr>"
    for to_datetime cast
    by (simp add: coerced_frame_def name_id_frame_def get_col_def cast_values_def)
  have h2: "find (\<lambda>entry. \<not> present only_id_column entry) number_timestamp = Some (''created'', ''timestamp'')"
    by (simp add: present_def number_timestamp_def only_id_column_def df_columns_def)
  have d2: "distinct (map fst number_timestamp)"
    by (simp add: number_timestamp_def)
  have p2: "takeWhile (present only_id_column) number_timestamp = [(''id'', ''number'')]"
    by (simp add: present_def number_timestamp_def only_id_column_def df_columns_def)
  have r2: "find (\<lambda>entry. \<not> resolves builtin_dtypes entry) (takeWhile (present only_id_column) number_timestamp)
            = Some (''id'', ''number'')"
    by (simp add: p2 resolves_def builtin_dtypes_def)
  have n2: "\<not> resolves builtin_dtypes (''id'', ''number'')"
    by (simp add: resolves_def builtin_dtypes_def)
  have f2: "coerced_frame to_datetime cast [] only_id_column = only_id_column" for to_datetime cast
    by (simp add: coerced_frame_def only_id_column_def)
  have a: "enforce_schema builtin_dtypes to_datetime cast id_created_name name_id_frame =
             \<lparr>outcome = Some (MissingColumn ''created''),
              frame_after =
                \<lparr>n_rows = 2,
                 cols = [(''name'', [PInt 1, PInt 2]),
                         (''id'', align 2 (cast ''int'' [PStr ''7'', PStr ''8'']))]\<rparr>,
              coerced = [''id'']\<rparr>" for to_datetime cast
    using enforce_schema_missing_column [OF h1 d1, of builtin_dtypes to_datetime cast] r1
    by (simp add: p1 f1)
  have b: "enforce_schema builtin_dtypes to_datetime cast number_timestamp only_id_column =
             \<lparr>outcome = Some (dtype_not_understood ''number''),
              frame_after = only_id_column,
              coerced = []\<rparr>" for to_datetime cast
    using enforce_schema_missing_column [OF h2 d2, of builtin_dtypes to_datetime cast] r2
    by (simp add: p2 n2 f2)
  from h1 d1 r1 a h2 d2 r2 b show ?thesis by simp
qed

text \<open>
  C3 as stated fails, twice.  With the schema \<open>{"id": "int", "created": "datetime"}\<close> and
  a batch without \<open>created\<close>, enforcement fails with \<open>MissingColumn\<close> after it has
  assigned the coerced \<open>id\<close> column: one column has been coerced, not zero.  With the
  schema of the spec's own example, \<open>{"id": "number", "created": "timestamp"}\<close>, and the
  same batch, enforcement fails on the type of \<open>id\<close>, which pandas does not resolve, and
  the missing column is never reported.
\<close>

theorem enforce_schema_coerces_before_failing:
  "(\<forall>to_datetime cast.
      enforce_schema builtin_dtypes to_datetime cast id_created only_id_column =
        \<lparr>outcome = Some (ValueError ''Missing required column: created''),
         frame_after = \<lparr>n_rows = 1, cols = [(''id'', align 1 (cast ''int'' [PStr ''7'']))]\<rparr>,
         coerced = [''id'']\<rparr>)
   \<and> (\<forall>to_datetime cast.
        outcome (enforce_schema builtin_dtypes to_datetime cast number_timestamp only_id_column)
          = Some (TypeError (''data type '' @ [CHR 0x27] @ ''number'' @ [CHR 0x27] @ '' not understood''))
        \<and> outcome (enforce_schema builtin_dtypes to_datetime cast number_timestamp only_id_column)
          \<noteq> Some (MissingColumn ''created''))"
  by (simp add: enforce_schema_def id_created_def number_timestamp_def only_id_column_def
      get_col_def set_col_def df_columns_def coerce_def MissingColumn_def builtin_dtypes_def
      dtype_not_understood_def)

text \<open>
  The stage fails with the same error; the frame it coerced is its own temporary, rebuilt
  from the records of the base batch.
\<close>

lemma schema_transform_api_data_missing_column:
  assumes "transform_api_data e payload base_url endpoint = Inr b"
    and "find (\<lambda>entry. \<not> present (data_frame (data b)) entry) schema = Some (c, t)"
    and "distinct (map fst schema)"
    and "list_all (resolves dtype_names) (takeWhile (present (data_frame (data b))) schema)"
  shows "schema_transform_api_data e dtype_names to_datetime cast schema payload base_url endpoint
         = Inl (MissingColumn c)"
proof -
  from find_dropWhile [of "present (data_frame (data b))", OF assms(2)]
  obtain ys where "dropWhile (present (data_frame (data b))) schema = (c, t) # ys"
    and "\<not> present (data_frame (data b)) (c, t)"
    by auto
  then show ?thesis
    using assms(1)
    by (simp add: schema_transform_api_data_def enforce_schema_def Let_def
        enforce_loop_closed_form [OF assms(3)] dropWhile_both [OF assms(4)])
qed

section \<open>Properties of the sink\<close>

text \<open>
  Where the format is tested, an unknown format fails with \<open>UnsupportedFormat\<close> and
  leaves the storage as it was: in \<open>save_to_raw_zone\<close> and in \<open>save_to_data_lake\<close>
  without partition columns.
\<close>

lemma save_to_raw_zone_unsupported:
  assumes "fmt \<notin> set supported_formats"
  shows "save_to_raw_zone timestamp files transformed storage_path fmt = (Inl (UnsupportedFormat fmt), files)"
  using assms by (simp add: save_to_raw_zone_def supported_formats_def Let_def)

lemma save_non_partitioned_unsupported:
  assumes "fmt \<notin> set supported_formats"
  shows "save_non_partitioned files df storage_path source_name_clean fmt timestamp
         = (Inl (UnsupportedFormat fmt), files)"
  using assms by (simp add: save_non_partitioned_def supported_formats_def Let_def)

lemma save_to_data_lake_unsupported:
  assumes "fmt \<notin> set supported_formats" and "partition_cols = None \<or> partition_cols = Some []"
  shows "save_to_data_lake to_text timestamp files transformed source_info storage_path fmt partition_cols
         = (Inl (UnsupportedFormat fmt), files)"
  using assms(2) save_non_partitioned_unsupported [OF assms(1)]
  by (auto simp: save_to_data_lake_def Let_def)

lemma org_frame:
  "data_frame (data org_batch) =
     \<lparr>n_rows = 2, cols = [(''org'', [PStr ''A'', PStr ''A'']), (''n'', [PInt 1, PInt 2])]\<rparr>"
  by (simp add: org_batch_def data_frame_def column_names_def cell_def)

lemma metadata_path_example:
  "py_replace ''data.xml'' ''metadata.json'' ''lake/crm/org=A/data.xml'' = ''lake/crm/org=A/metadata.json''"
  by simp

text \<open>
  C4 with partition columns.  \<open>save_to_data_lake\<close> with the format \<open>"xml"\<close> and
  \<open>partition_cols = ["org"]\<close> does not fail: it writes the data with \<open>to_parquet\<close>
  into a file named \<open>data.xml\<close>, then the metadata file, and returns the path.
\<close>

theorem save_to_data_lake_partitioned_ignores_format:
  "save_to_data_lake (str_of float_repr container_repr) timestamp [] org_batch
       [(''source_name'', ''crm'')] ''lake'' ''xml'' (Some [''org'']) =
     (Inr ''lake/crm/org=A/data.xml'',
      [(''lake/crm/org=A/data.xml'', Parquet \<lparr>n_rows = 2, cols = [(''n'', [PInt 1, PInt 2])]\<rparr>),
       (''lake/crm/org=A/metadata.json'', MetadataJson (metadata org_batch))])"
  by (simp add: save_to_data_lake_def org_frame save_partitioned_def get_col_def drop_columns_def
      df_columns_def clean_name_def is_alnum_def is_digit_def is_upper_def is_lower_def
      source_name_of_def metadata_path_example Let_def)

end
